theory Spec2Isabelle
  imports Main
begin

section \<open>The transactor gateway actor (workers/transactor/src/transactor.ts)\<close>

text \<open>
  The class \<open>Transactor\<close> is embedded by explicit state passing. One record holds the
  fields of the class (\<open>workspace\<close>, \<open>sessions\<close>), the part of the host the class
  talks to (the accepted websockets, their ready states, the registered auto response)
  and a trace of the calls the code makes to its collaborators, in program order.
  Every method takes the state and returns the new one; a method that can raise returns
  \<open>exn + 'a\<close> beside the state, \<open>Inl\<close> being the raised value.  The collaborators that
  the file imports (token decoding, the session manager, the RPC codec, the pipeline,
  the transport) are parameters, collected in the record \<open>env\<close>.
\<close>

subsection \<open>Data\<close>

type_synonym ws = nat
  \<comment> \<open>identity of a \<open>WebSocket\<close> object\<close>

type_synonym exn = string
  \<comment> \<open>a raised value, as the template literal \<open>`${error}`\<close> renders it\<close>

type_synonym bytes = string
  \<comment> \<open>a \<open>Buffer\<close>, \<open>Uint8Array\<close> or text frame: a list of 8-bit characters\<close>

datatype readyState = CONNECTING | OPEN | CLOSING | CLOSED

datatype json =
    JNull
  | JNum int
  | JStr string
  | JArr "json list"
  | JObj "(string \<times> json) list"

record token =
  email :: string
  workspaceName :: string
  extraMode :: "json option"
  extraModel :: "json option"

record request =
  rq_method :: string
  rq_params :: "json list"
  rq_id :: int
  rq_time :: "nat option"

record response =
  rs_id :: int
  rs_result :: json

record session =
  sessionId :: string
  binaryMode :: bool
  getUser :: string
  pipelineRef :: nat

record connectReady =
  cr_session :: session
  cr_workspaceId :: string

text \<open>
  What \<open>sessionManager.addSession\<close> resolves to: an object with an \<open>error\<close> key (and an
  optional \<open>terminate\<close>), one with an \<open>upgrade\<close> key, one with a \<open>session\<close>, or an object
  with none of the three (the case \<open>makeRpcSession\<close> guards against).
\<close>

datatype addSessionResult =
    AddError exn bool
  | AddUpgrade json
  | AddReady connectReady
  | AddNoSession

record clientData =
  remoteAddress :: string
  userAgent :: string
  language :: string
  cd_email :: string
  cd_mode :: "json option"
  cd_model :: "json option"

text \<open>
  A \<open>ConnectionSocket\<close> made by \<open>createWebsocketClientSocket\<close> is a closure over the
  websocket and the client data; its mutable flag \<open>isClosed\<close> lives in the state, keyed
  by the socket's id, since the object is shared with the session manager.
\<close>

record connectionSocket =
  cs_id :: string
  cs_ws :: ws
  cs_data :: clientData

record websocketData =
  connectionSocket :: "connectionSocket option"
  payload :: token
  wd_token :: string
  wd_session :: connectReady
  url :: string

text \<open>
  The promise that \<open>sessionManager.handleRequest\<close> returns: its number, and how it
  settles later (\<open>None\<close>: fulfilled; \<open>Some e\<close>: rejected with \<open>e\<close>).
\<close>

datatype promise = Promise nat "exn option"

text \<open>
  What \<open>session.getRawAccount\<close> hands back when it does not throw: the account itself,
  or a promise of it that is fulfilled or rejected later. \<open>getAccount\<close> returns it without
  \<open>await\<close>.
\<close>

datatype accountResult = AccountValue json | AccountPromise "exn + json"

datatype loadModelResponse =
    TxArray "json list"
  | ModelResponse "json list" string bool

datatype event =
    ConsoleLog string
  | ConsoleError string
  | Measure string nat
  | AcceptWebSocket ws
  | WsSend ws bytes
  | AutoResponse ws bytes
  | WsClose ws "nat option" "string option"
  | RpcReadRequest bytes bool
  | SmAddSession string string "string option"
  | SmHandleRequest string string request string
  | SmClose "string option" string
  | PromiseFinally nat
  | WaitUntil nat

text \<open>
  What the class imports and does not define: the keep-alive constants \<open>pingConst\<close> and
  \<open>pongConst\<close>, the clock, \<open>generateId\<close>, \<open>decodeToken\<close>, the session manager's
  \<open>addSession\<close> and \<open>handleRequest\<close>, the \<open>RPCHandler\<close> codec, snappy's \<open>compress\<close>, the
  outcome of \<open>ws.send\<close> and \<open>ws.close\<close> on the transport, the pipeline behind a session and
  its operations, and the encoders that \<open>getModel\<close> applies. A call that can raise or
  reject returns \<open>exn + 'a\<close> (for \<open>handleRequest\<close> and \<open>getRawAccount\<close>, \<open>Inl\<close> is a
  synchronous throw; what they return may still be a promise that rejects later); a
  pipeline is known by a handle.
\<close>

record env =
  pingConst :: string
  pongConst :: string
  now :: nat
  genId :: "nat \<Rightarrow> string"
  decodeToken :: "string \<Rightarrow> exn + token"
  sm_addSession :: "string \<Rightarrow> token \<Rightarrow> string \<Rightarrow> string option \<Rightarrow> exn + addSessionResult"
  sm_handleRequest :: "session \<Rightarrow> string \<Rightarrow> request \<Rightarrow> string \<Rightarrow> exn + promise"
  rpc_readRequest :: "bytes \<Rightarrow> bool \<Rightarrow> exn + request"
  rpc_serialize :: "response \<Rightarrow> bool \<Rightarrow> bytes"
  compress :: "bytes \<Rightarrow> bytes"
  ws_sendError :: "ws \<Rightarrow> bytes \<Rightarrow> exn option"
  ws_closeError :: "ws \<Rightarrow> readyState \<Rightarrow> exn option"
  resolvePipeline :: "session \<Rightarrow> exn + nat"
  includeSessionContext :: "session \<Rightarrow> nat \<Rightarrow> exn option"
  pipeline_findAll :: "nat \<Rightarrow> string \<Rightarrow> json \<Rightarrow> json \<Rightarrow> exn + json"
  pipeline_tx :: "nat \<Rightarrow> json list \<Rightarrow> exn + json"
  pipeline_loadModel :: "nat \<Rightarrow> nat \<Rightarrow> exn + loadModelResponse"
  getRawAccount :: "session \<Rightarrow> nat \<Rightarrow> exn + accountResult"
  jsonStringify :: "json list \<Rightarrow> string"
  textEncode :: "string \<Rightarrow> bytes"
  gzip :: "bytes \<Rightarrow> exn + bytes"

record transactor =
  workspace :: string
  sessions :: "ws \<rightharpoonup> websocketData"
  autoResponse :: "(string \<times> string) option"
  webSockets :: "ws list"
  readyState :: "ws \<Rightarrow> readyState"
  isClosed :: "string \<Rightarrow> bool"
  nextId :: nat
  nextWs :: nat
  trace :: "event list"

subsection \<open>Primitives: the trace, ids, the transport\<close>

definition emit :: "event \<Rightarrow> transactor \<Rightarrow> transactor" where
  "emit e s = s\<lparr>trace := trace s @ [e]\<rparr>"

definition generateId :: "env \<Rightarrow> transactor \<Rightarrow> string \<times> transactor" where
  "generateId env s = (genId env (nextId s), s\<lparr>nextId := Suc (nextId s)\<rparr>)"

text \<open>
  \<open>ws.send(data)\<close>: the call is recorded; the transport may refuse it by raising
  (\<open>sendMessage\<close> catches that).
\<close>

definition ws_send :: "env \<Rightarrow> ws \<Rightarrow> bytes \<Rightarrow> transactor \<Rightarrow> (exn + unit) \<times> transactor" where
  "ws_send env w d s =
     (let s1 = emit (WsSend w d) s in
      case ws_sendError env w d of
        Some e \<Rightarrow> (Inl e, s1)
      | None \<Rightarrow> (Inr (), s1))"

text \<open>
  \<open>ws.close(code, reason)\<close>: the call is recorded; it may raise (\<open>handleClose\<close> catches
  that); otherwise a socket that was connecting or open starts closing.
\<close>

definition afterClose :: "readyState \<Rightarrow> readyState" where
  "afterClose r = (case r of CONNECTING \<Rightarrow> CLOSING | OPEN \<Rightarrow> CLOSING | CLOSING \<Rightarrow> CLOSING | CLOSED \<Rightarrow> CLOSED)"

definition ws_close ::
  "env \<Rightarrow> ws \<Rightarrow> nat option \<Rightarrow> string option \<Rightarrow> transactor \<Rightarrow> (exn + unit) \<times> transactor" where
  "ws_close env w code reason s =
     (let s1 = emit (WsClose w code reason) s in
      case ws_closeError env w (readyState s1 w) of
        Some e \<Rightarrow> (Inl e, s1)
      | None \<Rightarrow> (Inr (), s1\<lparr>readyState := (readyState s1)(w := afterClose (readyState s1 w))\<rparr>))"

text \<open>
  Modelled from the spec: \<open>sessionManager.close\<close> (package \<open>@hcengineering/server\<close>, not
  among the sources) "releases per-connection resources"; the transactor awaits it
  without a handler everywhere. It is the recorded call and does not raise.
\<close>

definition sm_close :: "string option \<Rightarrow> string \<Rightarrow> transactor \<Rightarrow> (exn + unit) \<times> transactor" where
  "sm_close cs wsp s = (Inr (), emit (SmClose cs wsp) s)"

subsection \<open>Observations on a trace\<close>

fun sentTo :: "event list \<Rightarrow> (ws \<times> bytes) list" where
  "sentTo [] = []"
| "sentTo (WsSend w d # es) = (w, d) # sentTo es"
| "sentTo (e # es) = sentTo es"

text \<open>Everything written to a websocket, by the actor or by the host on its behalf.\<close>

fun written :: "event list \<Rightarrow> (ws \<times> bytes) list" where
  "written [] = []"
| "written (WsSend w d # es) = (w, d) # written es"
| "written (AutoResponse w d # es) = (w, d) # written es"
| "written (e # es) = written es"

fun closeCalls :: "event list \<Rightarrow> (ws \<times> nat option \<times> string option) list" where
  "closeCalls [] = []"
| "closeCalls (WsClose w c r # es) = (w, c, r) # closeCalls es"
| "closeCalls (e # es) = closeCalls es"

fun cleanups :: "event list \<Rightarrow> (string option \<times> string) list" where
  "cleanups [] = []"
| "cleanups (SmClose c w # es) = (c, w) # cleanups es"
| "cleanups (e # es) = cleanups es"

fun dispatched :: "event list \<Rightarrow> request list" where
  "dispatched [] = []"
| "dispatched (SmHandleRequest sid c r w # es) = r # dispatched es"
| "dispatched (e # es) = dispatched es"

fun codecReads :: "event list \<Rightarrow> bytes list" where
  "codecReads [] = []"
| "codecReads (RpcReadRequest b m # es) = b # codecReads es"
| "codecReads (e # es) = codecReads es"

fun measured :: "event list \<Rightarrow> (string \<times> nat) list" where
  "measured [] = []"
| "measured (Measure n k # es) = (n, k) # measured es"
| "measured (e # es) = measured es"

fun errorsLogged :: "event list \<Rightarrow> string list" where
  "errorsLogged [] = []"
| "errorsLogged (ConsoleError m # es) = m # errorsLogged es"
| "errorsLogged (e # es) = errorsLogged es"

subsection \<open>The connection socket (createWebsocketClientSocket)\<close>

definition createWebsocketClientSocket ::
  "env \<Rightarrow> ws \<Rightarrow> clientData \<Rightarrow> transactor \<Rightarrow> connectionSocket \<times> transactor" where
  "createWebsocketClientSocket env w d s =
     (let (i, s1) = generateId env s in
      (\<lparr>cs_id = i, cs_ws = w, cs_data = d\<rparr>, s1\<lparr>isClosed := (isClosed s1)(i := False)\<rparr>))"

definition close :: "env \<Rightarrow> connectionSocket \<Rightarrow> transactor \<Rightarrow> (exn + unit) \<times> transactor" where
  "close env cs s =
     ws_close env (cs_ws cs) None None (s\<lparr>isClosed := (isClosed s)(cs_id cs := True)\<rparr>)"

definition checkState :: "env \<Rightarrow> connectionSocket \<Rightarrow> transactor \<Rightarrow> (exn + bool) \<times> transactor" where
  "checkState env cs s =
     (if readyState s (cs_ws cs) = CLOSED \<or> readyState s (cs_ws cs) = CLOSING then
        (case ws_close env (cs_ws cs) None None s of
           (Inl e, s1) \<Rightarrow> (Inl e, s1)
         | (Inr u, s1) \<Rightarrow> (Inr False, s1))
      else (Inr True, s))"

text \<open>
  \<open>readRequest\<close>: the buffer is compared with the keep-alive probe by length and then
  by content (both are byte strings here; the probe is ASCII); otherwise the RPC codec
  is invoked, which may raise on a malformed frame.
\<close>

definition rpcHandler_readRequest ::
  "env \<Rightarrow> bytes \<Rightarrow> bool \<Rightarrow> transactor \<Rightarrow> (exn + request) \<times> transactor" where
  "rpcHandler_readRequest env buffer binary s =
     (rpc_readRequest env buffer binary, emit (RpcReadRequest buffer binary) s)"

definition readRequest ::
  "env \<Rightarrow> connectionSocket \<Rightarrow> bytes \<Rightarrow> bool \<Rightarrow> transactor \<Rightarrow> (exn + request) \<times> transactor" where
  "readRequest env cs buffer binary s =
     (if length buffer = length (pingConst env) then
        (if buffer = pingConst env then
           (Inr \<lparr>rq_method = pingConst env, rq_params = [], rq_id = - 1, rq_time = Some (now env)\<rparr>, s)
         else rpcHandler_readRequest env buffer binary s)
      else rpcHandler_readRequest env buffer binary s)"

definition send ::
  "env \<Rightarrow> connectionSocket \<Rightarrow> response \<Rightarrow> bool \<Rightarrow> bool \<Rightarrow> transactor \<Rightarrow> (exn + unit) \<times> transactor" where
  "send env cs msg binary compression s =
     (let smsg = rpc_serialize env msg binary;
          s1 = emit (Measure ''send-data'' (length smsg)) s in
      if readyState s1 (cs_ws cs) \<noteq> OPEN \<or> isClosed s1 (cs_id cs) then (Inr (), s1)
      else ws_send env (cs_ws cs) (if compression then compress env smsg else smsg) s1)"

definition sendPong :: "env \<Rightarrow> connectionSocket \<Rightarrow> transactor \<Rightarrow> (exn + unit) \<times> transactor" where
  "sendPong env cs s =
     (if readyState s (cs_ws cs) \<noteq> OPEN \<or> isClosed s (cs_id cs) then (Inr (), s)
      else ws_send env (cs_ws cs) (pongConst env) s)"

subsection \<open>Closing a connection\<close>

definition handleClose :: "env \<Rightarrow> ws \<Rightarrow> nat \<Rightarrow> string option \<Rightarrow> transactor \<Rightarrow> (exn + unit) \<times> transactor" where
  "handleClose env w code reason s =
     (let s1 = emit (ConsoleLog ''Closing connection with code'') s;
          s2 = (case ws_close env w (Some code) reason s1 of
                  (Inl err, s') \<Rightarrow> emit (ConsoleError ''Failed to close WebSocket:'') s'
                | (Inr u, s') \<Rightarrow> s') in
      case sessions s2 w of
        None \<Rightarrow> (Inr (), s2)
      | Some sn \<Rightarrow>
          (let s3 = s2\<lparr>sessions := (sessions s2)(w := None)\<rparr>;
               s4 = emit (ConsoleLog ''Cleaning up session for'') s3 in
           sm_close (map_option cs_id (connectionSocket sn)) (workspace s4) s4))"

subsection \<open>Broadcast\<close>

definition sendMessage :: "env \<Rightarrow> ws \<Rightarrow> bytes \<Rightarrow> transactor \<Rightarrow> (exn + unit) \<times> transactor" where
  "sendMessage env w message s =
     (case ws_send env w message s of
        (Inr u, s1) \<Rightarrow> (Inr (), s1)
      | (Inl err, s1) \<Rightarrow>
          handleClose env w 1011 (Some ''error'') (emit (ConsoleError ''Failed to send message:'') s1))"

text \<open>
  \<open>Promise.all\<close> over \<open>wss.map\<close>: every \<open>sendMessage\<close> is started, in the order of the
  list, whatever the outcome of the ones before; the result is the first rejection, if
  any.
\<close>

fun sendAll :: "env \<Rightarrow> bytes \<Rightarrow> ws list \<Rightarrow> transactor \<Rightarrow> (exn + unit) \<times> transactor" where
  "sendAll env message [] s = (Inr (), s)"
| "sendAll env message (w # wss) s =
     (case sendMessage env w message s of
        (r, s1) \<Rightarrow>
          (case sendAll env message wss s1 of
             (r', s2) \<Rightarrow> ((case r of Inl e \<Rightarrow> Inl e | Inr u \<Rightarrow> r'), s2)))"

definition getWebSockets :: "transactor \<Rightarrow> ws list" where
  "getWebSockets s = webSockets s"

definition broadcastMessage :: "env \<Rightarrow> bytes \<Rightarrow> transactor \<Rightarrow> (exn + unit) \<times> transactor" where
  "broadcastMessage env message s =
     (let s1 = emit (ConsoleLog ''broadcast'') s;
          wss = filter (\<lambda>w. readyState s1 w = OPEN) (getWebSockets s1) in
      sendAll env message wss s1)"

subsection \<open>Admission of a connection\<close>

definition acceptWebSocket :: "ws \<Rightarrow> transactor \<Rightarrow> transactor" where
  "acceptWebSocket w s = emit (AcceptWebSocket w) (s\<lparr>webSockets := webSockets s @ [w]\<rparr>)"

definition upgradingMessage :: "json \<Rightarrow> response" where
  "upgradingMessage info =
     \<lparr>rs_id = - 1, rs_result = JObj [(''state'', JStr ''upgrading''), (''stats'', info)]\<rparr>"

text \<open>The body of the \<open>try\<close> block of \<open>handleSession\<close>, after \<open>addSession\<close> has resolved.\<close>

definition handleSession_admitted ::
  "env \<Rightarrow> ws \<Rightarrow> connectionSocket \<Rightarrow> token \<Rightarrow> string \<Rightarrow> addSessionResult \<Rightarrow> transactor
     \<Rightarrow> (exn + bool) \<times> transactor" where
  "handleSession_admitted env w cs tok rawToken res s =
     (case res of
        AddError err terminate \<Rightarrow>
          (let s1 = emit (ConsoleError ''Failed to establish session:'') s in
           case ws_close env w (Some 4003) (Some ''Session establishment failed'') s1 of
             (Inl e, s2) \<Rightarrow> (Inl e, s2)
           | (Inr u, s2) \<Rightarrow>
               (if terminate then
                  (case ws_close env w None None s2 of
                     (Inl e, s3) \<Rightarrow> (Inl e, s3)
                   | (Inr u', s3) \<Rightarrow> (Inl err, s3))
                else (Inl err, s2)))
      | AddUpgrade info \<Rightarrow>
          (case send env cs (upgradingMessage info) False False s of
             (Inl e, s1) \<Rightarrow> (Inl e, s1)
           | (Inr u, s1) \<Rightarrow>
               (case close env cs s1 of
                  (Inl e, s2) \<Rightarrow> (Inl e, s2)
                | (Inr u', s2) \<Rightarrow> (Inr True, s2)))
      | AddNoSession \<Rightarrow>
          (Inl ''TypeError: Cannot read properties of undefined'', s)
      | AddReady cr \<Rightarrow>
          (let webSocketData =
                 \<lparr>connectionSocket = Some cs, payload = tok, wd_token = rawToken,
                  wd_session = cr, url = []\<rparr>;
               s1 = emit (ConsoleLog ''Session established successfully:'') s in
           (Inr True, s1\<lparr>sessions := (sessions s1)(w \<mapsto> webSocketData)\<rparr>)))"

text \<open>
  The upgrade request, after \<open>new URL(request.url)\<close>: the path, the \<open>sessionId\<close> query
  parameter and the three headers that \<open>handleSession\<close> reads.
\<close>

record httpRequest =
  pathname :: string
  sessionIdParam :: "string option"
  hdr_ip :: "string option"
  hdr_userAgent :: "string option"
  hdr_language :: "string option"

text \<open>The \<open>catch\<close> block of \<open>handleSession\<close>: log, close with 4003, raise again.\<close>

definition handleSession_catch :: "env \<Rightarrow> ws \<Rightarrow> exn \<Rightarrow> transactor \<Rightarrow> (exn + bool) \<times> transactor" where
  "handleSession_catch env w err s =
     (let s1 = emit (ConsoleError ''Failed to establish session:'') s in
      case ws_close env w (Some 4003) (Some ''Session establishment failed'') s1 of
        (Inl e, s2) \<Rightarrow> (Inl e, s2)
      | (Inr u, s2) \<Rightarrow> (Inl err, s2))"

text \<open>The \<open>try\<close> block of \<open>handleSession\<close>: \<open>addSession\<close> may itself reject.\<close>

definition handleSession_try ::
  "env \<Rightarrow> ws \<Rightarrow> connectionSocket \<Rightarrow> token \<Rightarrow> string \<Rightarrow> string option \<Rightarrow> transactor
     \<Rightarrow> (exn + bool) \<times> transactor" where
  "handleSession_try env w cs tok rawToken sid s =
     (let s1 = emit (SmAddSession (cs_id cs) rawToken sid) s in
      case sm_addSession env (cs_id cs) tok rawToken sid of
        Inl e \<Rightarrow> (Inl e, s1)
      | Inr res \<Rightarrow> handleSession_admitted env w cs tok rawToken res s1)"

definition clientDataOf :: "httpRequest \<Rightarrow> token \<Rightarrow> clientData" where
  "clientDataOf req tok =
     \<lparr>remoteAddress = (case hdr_ip req of None \<Rightarrow> [] | Some v \<Rightarrow> v),
      userAgent = (case hdr_userAgent req of None \<Rightarrow> [] | Some v \<Rightarrow> v),
      language = (case hdr_language req of None \<Rightarrow> [] | Some v \<Rightarrow> v),
      cd_email = email tok, cd_mode = extraMode tok, cd_model = extraModel tok\<rparr>"

definition handleSession ::
  "env \<Rightarrow> ws \<Rightarrow> httpRequest \<Rightarrow> token \<Rightarrow> string \<Rightarrow> string option \<Rightarrow> transactor
     \<Rightarrow> (exn + bool) \<times> transactor" where
  "handleSession env w req tok rawToken sid s =
     (let d = clientDataOf req tok;
          s1 = emit (ConsoleLog ''New session attempt'') s;
          s2 = acceptWebSocket w s1;
          (cs, s3) = createWebsocketClientSocket env w d s2 in
      case handleSession_try env w cs tok rawToken sid s3 of
        (Inr b, s4) \<Rightarrow> (Inr b, s4)
      | (Inl err, s4) \<Rightarrow> handleSession_catch env w err s4)"

datatype httpResponse = Response nat "ws option"

definition newWebSocketPair :: "transactor \<Rightarrow> (ws \<times> ws) \<times> transactor" where
  "newWebSocketPair s = ((nextWs s, Suc (nextWs s)), s\<lparr>nextWs := Suc (Suc (nextWs s))\<rparr>)"

definition fetch :: "env \<Rightarrow> httpRequest \<Rightarrow> transactor \<Rightarrow> httpResponse \<times> transactor" where
  "fetch env req s =
     (let ((client, server), s1) = newWebSocketPair s;
          tokenStr = drop 1 (pathname req) in
      case decodeToken env tokenStr of
        Inl err \<Rightarrow> (Response 404 None, emit (ConsoleError ''Failed to handle request'') s1)
      | Inr pl \<Rightarrow>
          (let sid = sessionIdParam req;
               s2 = (if workspace s1 = [] then s1\<lparr>workspace := workspaceName pl\<rparr> else s1) in
           case handleSession env server req pl tokenStr sid s2 of
             (Inl err, s3) \<Rightarrow> (Response 404 None, emit (ConsoleError ''Failed to handle request'') s3)
           | (Inr ok, s3) \<Rightarrow>
               (if \<not> ok then (Response 404 None, s3) else (Response 101 (Some client), s3))))"

subsection \<open>Frames of an established connection\<close>

text \<open>
  Modelled from the spec: \<open>doSessionOp\<close> (package \<open>@hcengineering/server\<close>, not among
  the sources). For an established session, "each frame" is handed, with the session,
  to the operation; the bundles that \<open>handleSession\<close> stores are established ones.
\<close>

definition doSessionOp ::
  "websocketData \<Rightarrow> (connectReady \<Rightarrow> bytes \<Rightarrow> transactor \<Rightarrow> (exn + unit) \<times> transactor)
     \<Rightarrow> bytes \<Rightarrow> transactor \<Rightarrow> (exn + unit) \<times> transactor" where
  "doSessionOp d op msg s = op (wd_session d) msg s"

definition promiseId :: "promise \<Rightarrow> nat" where
  "promiseId r = (case r of Promise n outcome \<Rightarrow> n)"

definition processFrame ::
  "env \<Rightarrow> string \<Rightarrow> connectionSocket \<Rightarrow> connectReady \<Rightarrow> bytes \<Rightarrow> transactor
     \<Rightarrow> (exn + unit) \<times> transactor" where
  "processFrame env wsp cs s buff st =
     (let st1 = emit (Measure ''receive-data'' (length buff)) st in
      case readRequest env cs buff (binaryMode (cr_session s)) st1 of
        (Inl e, st2) \<Rightarrow> (Inl e, st2)
      | (Inr rq, st2) \<Rightarrow>
          (let st3 = emit (SmHandleRequest (sessionId (cr_session s)) (cs_id cs) rq wsp) st2 in
           case sm_handleRequest env (cr_session s) (cs_id cs) rq wsp of
             Inl e \<Rightarrow> (Inl e, st3)
           | Inr r \<Rightarrow>
               (Inr (), emit (WaitUntil (promiseId r)) (emit (PromiseFinally (promiseId r)) st3))))"

definition webSocketMessage :: "env \<Rightarrow> ws \<Rightarrow> bytes \<Rightarrow> transactor \<Rightarrow> (exn + unit) \<times> transactor" where
  "webSocketMessage env w message s =
     (case sessions s w of
        None \<Rightarrow> (Inr (), s)
      | Some sn \<Rightarrow>
          (case connectionSocket sn of
             None \<Rightarrow> (Inr (), s)
           | Some cs \<Rightarrow>
               (case doSessionOp sn (processFrame env (workspace s) cs) message s of
                  (Inl err, s1) \<Rightarrow> (Inr (), emit (ConsoleError ''Failed to handle message:'') s1)
                | (Inr u, s1) \<Rightarrow> (Inr (), s1))))"

text \<open>
  The callback that \<open>webSocketMessage\<close> gives to \<open>r.finally\<close>, run when the promise of the
  dispatch settles: it writes the completion line \<open>handle-request\<close> with \<open>console.log\<close>,
  whatever the outcome. The promise that \<open>finally\<close> returns is discarded (\<open>void\<close>), so a
  rejection is passed on to nobody: it is the result here.
\<close>

definition onSettled :: "promise \<Rightarrow> transactor \<Rightarrow> (exn + unit) \<times> transactor" where
  "onSettled r s =
     ((case r of Promise n None \<Rightarrow> Inr () | Promise n (Some e) \<Rightarrow> Inl e),
      emit (ConsoleLog ''handle-request'') s)"

text \<open>
  Modelled from the spec: the host's delivery of an incoming frame (the Durable Object
  runtime of \<open>cloudflare:workers\<close>, not among the sources). With the pair that the
  constructor registers through \<open>setWebSocketAutoResponse\<close>, "the fixed-length textual
  probe is answered by the fixed-length textual reply, bypassing JSON parsing both
  ways": a text frame equal to the registered request is answered by the host with the
  registered response and is not delivered. Every other frame, text or binary, is
  delivered to \<open>webSocketMessage\<close>, which turns it into a buffer.
\<close>

datatype frame = TextFrame string | BinaryFrame bytes

definition hostReceives :: "env \<Rightarrow> ws \<Rightarrow> frame \<Rightarrow> transactor \<Rightarrow> (exn + unit) \<times> transactor" where
  "hostReceives env w fr s =
     (case fr of
        TextFrame m \<Rightarrow>
          (case autoResponse s of
             None \<Rightarrow> webSocketMessage env w m s
           | Some (rq, rsp) \<Rightarrow>
               (if m = rq then (Inr (), emit (AutoResponse w rsp) s)
                else webSocketMessage env w m s))
      | BinaryFrame b \<Rightarrow> webSocketMessage env w b s)"

definition webSocketError :: "env \<Rightarrow> ws \<Rightarrow> exn \<Rightarrow> transactor \<Rightarrow> (exn + unit) \<times> transactor" where
  "webSocketError env w error s =
     handleClose env w 1011 (Some ''error'') (emit (ConsoleError ''WebSocket error:'') s)"

definition alarm :: "transactor \<Rightarrow> (exn + unit) \<times> transactor" where
  "alarm s = (Inr (), emit (ConsoleLog ''Resource usage'') s)"

subsection \<open>The bridge (direct RPC)\<close>

text \<open>
  The socket of \<open>createDummyClientSocket\<close> discards everything; the bridge only hands it
  to the session manager, so it is represented by its id.
\<close>

definition createDummyClientSocket :: "env \<Rightarrow> transactor \<Rightarrow> string \<times> transactor" where
  "createDummyClientSocket env s =
     (let (i, s1) = generateId env s in (i, s1\<lparr>isClosed := (isClosed s1)(i := False)\<rparr>))"

definition makeRpcSession :: "env \<Rightarrow> string \<Rightarrow> string \<Rightarrow> transactor \<Rightarrow> (exn + session) \<times> transactor" where
  "makeRpcSession env rawToken cs s =
     (case decodeToken env rawToken of
        Inl e \<Rightarrow> (Inl e, s)
      | Inr tok \<Rightarrow>
          (let (sid, s1) = generateId env s;
               s2 = emit (SmAddSession cs rawToken (Some sid)) s1 in
           case sm_addSession env cs tok rawToken (Some sid) of
             Inl e \<Rightarrow> (Inl e, s2)
           | Inr (AddError e terminate) \<Rightarrow> (Inl e, s2)
           | Inr (AddUpgrade info) \<Rightarrow> (Inl ''Error: Workspace is upgrading'', s2)
           | Inr AddNoSession \<Rightarrow> (Inl ''Error: No session'', s2)
           | Inr (AddReady cr) \<Rightarrow>
               (Inr (cr_session cr),
                if workspace s2 = [] then s2\<lparr>workspace := workspaceName tok\<rparr> else s2)))"

definition errorObject :: "exn \<Rightarrow> json" where
  "errorObject error = JObj [(''error'', JStr error)]"

definition orEmpty :: "json option \<Rightarrow> json" where
  "orEmpty q = (case q of None \<Rightarrow> JObj [] | Some v \<Rightarrow> v)"

text \<open>The \<open>try\<close> blocks of the four bridge operations.\<close>

definition findAll_try ::
  "env \<Rightarrow> string \<Rightarrow> string \<Rightarrow> string \<Rightarrow> json option \<Rightarrow> json option \<Rightarrow> transactor
     \<Rightarrow> (exn + json) \<times> transactor" where
  "findAll_try env rawToken cs cl query options s =
     (case makeRpcSession env rawToken cs s of
        (Inl e, s1) \<Rightarrow> (Inl e, s1)
      | (Inr sn, s1) \<Rightarrow>
          (case resolvePipeline env sn of
             Inl e \<Rightarrow> (Inl e, s1)
           | Inr pipeline \<Rightarrow>
               (case includeSessionContext env sn pipeline of
                  Some e \<Rightarrow> (Inl e, s1)
                | None \<Rightarrow> (pipeline_findAll env pipeline cl (orEmpty query) (orEmpty options), s1))))"

definition findAll ::
  "env \<Rightarrow> string \<Rightarrow> string \<Rightarrow> string \<Rightarrow> json option \<Rightarrow> json option \<Rightarrow> transactor
     \<Rightarrow> (exn + json) \<times> transactor" where
  "findAll env rawToken workspaceId cl query options s =
     (let (cs, s1) = createDummyClientSocket env s;
          (r, s2) = findAll_try env rawToken cs cl query options s1;
          result = (case r of Inr v \<Rightarrow> v | Inl error \<Rightarrow> errorObject error) in
      case sm_close (Some cs) (workspace s2) s2 of
        (Inl e, s3) \<Rightarrow> (Inl e, s3)
      | (Inr u, s3) \<Rightarrow> (Inr result, s3))"

definition tx_try ::
  "env \<Rightarrow> string \<Rightarrow> string \<Rightarrow> json \<Rightarrow> transactor \<Rightarrow> (exn + json) \<times> transactor" where
  "tx_try env rawToken cs t s =
     (case makeRpcSession env rawToken cs s of
        (Inl e, s1) \<Rightarrow> (Inl e, s1)
      | (Inr sn, s1) \<Rightarrow>
          (case resolvePipeline env sn of
             Inl e \<Rightarrow> (Inl e, s1)
           | Inr pipeline \<Rightarrow>
               (case includeSessionContext env sn pipeline of
                  Some e \<Rightarrow> (Inl e, s1)
                | None \<Rightarrow> (pipeline_tx env pipeline [t], s1))))"

definition tx :: "env \<Rightarrow> string \<Rightarrow> string \<Rightarrow> json \<Rightarrow> transactor \<Rightarrow> (exn + json) \<times> transactor" where
  "tx env rawToken workspaceId t s =
     (let (cs, s1) = createDummyClientSocket env s;
          (r, s2) = tx_try env rawToken cs t s1;
          result = (case r of Inr v \<Rightarrow> v | Inl error \<Rightarrow> errorObject error) in
      case sm_close (Some cs) (workspace s2) s2 of
        (Inl e, s3) \<Rightarrow> (Inl e, s3)
      | (Inr u, s3) \<Rightarrow> (Inr result, s3))"

definition transactionsOf :: "loadModelResponse \<Rightarrow> json list" where
  "transactionsOf ret = (case ret of TxArray txs \<Rightarrow> txs | ModelResponse txs h f \<Rightarrow> txs)"

definition getModel_try ::
  "env \<Rightarrow> string \<Rightarrow> string \<Rightarrow> transactor \<Rightarrow> (exn + json list) \<times> transactor" where
  "getModel_try env rawToken cs s =
     (case makeRpcSession env rawToken cs s of
        (Inl e, s1) \<Rightarrow> (Inl e, s1)
      | (Inr sn, s1) \<Rightarrow>
          (case resolvePipeline env sn of
             Inl e \<Rightarrow> (Inl e, s1)
           | Inr pipeline \<Rightarrow>
               (case includeSessionContext env sn pipeline of
                  Some e \<Rightarrow> (Inl e, s1)
                | None \<Rightarrow>
                    (case pipeline_loadModel env pipeline 0 of
                       Inl e \<Rightarrow> (Inl e, s1)
                     | Inr ret \<Rightarrow> (Inr (transactionsOf ret), s1)))))"

datatype modelReply = ModelError json | Compressed bytes

definition getModel :: "env \<Rightarrow> string \<Rightarrow> transactor \<Rightarrow> (exn + modelReply) \<times> transactor" where
  "getModel env rawToken s =
     (let (cs, s1) = createDummyClientSocket env s;
          (r, s2) = getModel_try env rawToken cs s1 in
      case sm_close (Some cs) (workspace s2) s2 of
        (Inl e, s3) \<Rightarrow> (Inl e, s3)
      | (Inr u, s3) \<Rightarrow>
          (case r of
             Inl error \<Rightarrow> (Inr (ModelError (errorObject error)), s3)
           | Inr result \<Rightarrow>
               (let buffer = textEncode env (jsonStringify env result) in
                case gzip env buffer of
                  Inl e \<Rightarrow> (Inl e, s3)
                | Inr compressed \<Rightarrow> (Inr (Compressed compressed), s3))))"

text \<open>
  \<open>getAccount\<close> has \<open>return session.getRawAccount(pipeline)\<close> inside its \<open>try\<close>, without
  \<open>await\<close>: a synchronous throw of \<open>getRawAccount\<close> is caught; what it returns is the
  result of the block as it is. After the \<open>finally\<close> block the async function resolves
  with that value: an account is the result, a promise is adopted, and a promise that
  rejects makes \<open>getAccount\<close> reject.
\<close>

definition getAccount_try ::
  "env \<Rightarrow> string \<Rightarrow> string \<Rightarrow> transactor \<Rightarrow> (exn + accountResult) \<times> transactor" where
  "getAccount_try env rawToken cs s =
     (case makeRpcSession env rawToken cs s of
        (Inl e, s1) \<Rightarrow> (Inl e, s1)
      | (Inr sn, s1) \<Rightarrow>
          (case resolvePipeline env sn of
             Inl e \<Rightarrow> (Inl e, s1)
           | Inr pipeline \<Rightarrow> (getRawAccount env sn pipeline, s1)))"

definition getAccount :: "env \<Rightarrow> string \<Rightarrow> transactor \<Rightarrow> (exn + json) \<times> transactor" where
  "getAccount env rawToken s =
     (let (cs, s1) = createDummyClientSocket env s;
          (r, s2) = getAccount_try env rawToken cs s1 in
      case sm_close (Some cs) (workspace s2) s2 of
        (Inl e, s3) \<Rightarrow> (Inl e, s3)
      | (Inr u, s3) \<Rightarrow>
          (case r of
             Inl error \<Rightarrow> (Inr (errorObject error), s3)
           | Inr (AccountValue v) \<Rightarrow> (Inr v, s3)
           | Inr (AccountPromise (Inr v)) \<Rightarrow> (Inr v, s3)
           | Inr (AccountPromise (Inl e)) \<Rightarrow> (Inl e, s3)))"

subsection \<open>Construction, and the actor as a transition system\<close>

text \<open>
  The constructor leaves the workspace unbound and the registry empty, and registers
  the keep-alive pair with the host (\<open>setWebSocketAutoResponse\<close>). The ready states of
  the sockets belong to the host and are a parameter.
\<close>

definition constructor :: "env \<Rightarrow> (ws \<Rightarrow> readyState) \<Rightarrow> transactor" where
  "constructor env rs =
     \<lparr>workspace = [], sessions = Map.empty,
      autoResponse = Some (pingConst env, pongConst env),
      webSockets = [], readyState = rs, isClosed = (\<lambda>i. False),
      nextId = 0, nextWs = 0,
      trace = [ConsoleLog ''Connecting DB'', ConsoleLog ''use stats'', ConsoleLog ''use fulltext'']\<rparr>"

datatype operation =
    Fetch httpRequest
  | Incoming ws frame
  | WebSocketMessage ws bytes
  | WebSocketError ws exn
  | Alarm
  | HandleSession ws httpRequest token string "string option"
  | CreateWebsocketClientSocket ws clientData
  | BroadcastMessage bytes
  | SendMessage ws bytes
  | HandleClose ws nat "string option"
  | FindAll string string string "json option" "json option"
  | TxOp string string json
  | GetModel string
  | GetAccount string

fun step :: "env \<Rightarrow> operation \<Rightarrow> transactor \<Rightarrow> transactor" where
  "step env (Fetch req) s = snd (fetch env req s)"
| "step env (Incoming w fr) s = snd (hostReceives env w fr s)"
| "step env (WebSocketMessage w m) s = snd (webSocketMessage env w m s)"
| "step env (WebSocketError w e) s = snd (webSocketError env w e s)"
| "step env Alarm s = snd (alarm s)"
| "step env (HandleSession w req tok raw sid) s = snd (handleSession env w req tok raw sid s)"
| "step env (CreateWebsocketClientSocket w d) s = snd (createWebsocketClientSocket env w d s)"
| "step env (BroadcastMessage m) s = snd (broadcastMessage env m s)"
| "step env (SendMessage w m) s = snd (sendMessage env w m s)"
| "step env (HandleClose w c r) s = snd (handleClose env w c r s)"
| "step env (FindAll raw wid cl q opts) s = snd (findAll env raw wid cl q opts s)"
| "step env (TxOp raw wid t) s = snd (tx env raw wid t s)"
| "step env (GetModel raw) s = snd (getModel env raw s)"
| "step env (GetAccount raw) s = snd (getAccount env raw s)"

fun run :: "env \<Rightarrow> operation list \<Rightarrow> transactor \<Rightarrow> transactor" where
  "run env [] s = s"
| "run env (op # ops) s = run env ops (step env op s)"

subsection \<open>A concrete environment and state\<close>

text \<open>
  One environment and one actor state on which the theorems below are instantiated: a
  token \<open>good\<close> that is admitted, a token \<open>upgrading\<close> whose workspace is being upgraded,
  a token \<open>other\<close> for another workspace, any other token invalid; a request \<open>fail\<close>
  whose dispatch throws and a request \<open>reject\<close> whose dispatch returns a promise that
  rejects; socket 5 healthy, socket 6 with a broken transport (its
  \<open>send\<close> raises), socket 7 already closed.
\<close>

definition demoToken :: token where
  "demoToken = \<lparr>email = ''user@example.com'', workspaceName = ''w1'',
                 extraMode = None, extraModel = None\<rparr>"

definition demoSession :: session where
  "demoSession = \<lparr>sessionId = ''s1'', binaryMode = False, getUser = ''user@example.com'',
                   pipelineRef = 0\<rparr>"

text \<open>
  A small text format for JSON values that can be read back, standing in the concrete
  environment for \<open>JSON.stringify\<close> and \<open>JSON.parse\<close>: numbers in unary, strings with
  their length in front, arrays and objects in brackets. The reader takes the length of
  its input as fuel.
\<close>

definition unary :: "nat \<Rightarrow> string" where
  "unary n = replicate n CHR ''1'' @ ''.''"

definition writeString :: "string \<Rightarrow> string" where
  "writeString t = unary (length t) @ t"

fun writeJson :: "json \<Rightarrow> string" where
  "writeJson JNull = ''n''"
| "writeJson (JNum i) = (if i < 0 then ''-'' else ''+'') @ unary (nat \<bar>i\<bar>)"
| "writeJson (JStr t) = ''s'' @ writeString t"
| "writeJson (JArr xs) = ''['' @ concat (map writeJson xs) @ '']''"
| "writeJson (JObj kvs) = ''{'' @ concat (map (\<lambda>(k, v). ''k'' @ writeString k @ writeJson v) kvs) @ ''}''"

definition readUnary :: "string \<Rightarrow> nat \<times> string" where
  "readUnary t = (length (takeWhile (\<lambda>c. c = CHR ''1'') t), drop 1 (dropWhile (\<lambda>c. c = CHR ''1'') t))"

definition readString :: "string \<Rightarrow> string \<times> string" where
  "readString t = (let (n, r) = readUnary t in (take n r, drop n r))"

fun readJson :: "nat \<Rightarrow> string \<Rightarrow> (json \<times> string) option"
  and readArr :: "nat \<Rightarrow> string \<Rightarrow> (json list \<times> string) option"
  and readObj :: "nat \<Rightarrow> string \<Rightarrow> ((string \<times> json) list \<times> string) option" where
  "readJson 0 t = None"
| "readJson (Suc f) [] = None"
| "readJson (Suc f) (c # t) =
     (if c = CHR ''n'' then Some (JNull, t)
      else if c = CHR ''+'' then (let (n, r) = readUnary t in Some (JNum (int n), r))
      else if c = CHR ''-'' then (let (n, r) = readUnary t in Some (JNum (- int n), r))
      else if c = CHR ''s'' then (let (v, r) = readString t in Some (JStr v, r))
      else if c = CHR ''['' then
        (case readArr f t of None \<Rightarrow> None | Some (xs, r) \<Rightarrow> Some (JArr xs, r))
      else if c = CHR ''{'' then
        (case readObj f t of None \<Rightarrow> None | Some (kvs, r) \<Rightarrow> Some (JObj kvs, r))
      else None)"
| "readArr 0 t = None"
| "readArr (Suc f) [] = None"
| "readArr (Suc f) (c # t) =
     (if c = CHR '']'' then Some ([], t)
      else (case readJson f (c # t) of
              None \<Rightarrow> None
            | Some (x, r) \<Rightarrow>
                (case readArr f r of None \<Rightarrow> None | Some (xs, r') \<Rightarrow> Some (x # xs, r'))))"
| "readObj 0 t = None"
| "readObj (Suc f) [] = None"
| "readObj (Suc f) (c # t) =
     (if c = CHR ''}'' then Some ([], t)
      else if c = CHR ''k'' then
        (let (k, r) = readString t in
         case readJson f r of
           None \<Rightarrow> None
         | Some (v, r') \<Rightarrow>
             (case readObj f r' of None \<Rightarrow> None | Some (kvs, r'') \<Rightarrow> Some ((k, v) # kvs, r'')))
      else None)"

definition demoStringify :: "json list \<Rightarrow> string" where
  "demoStringify txs = writeJson (JArr txs)"

definition demoParse :: "string \<Rightarrow> json list" where
  "demoParse t =
     (case readJson (length t) t of
        Some (JArr xs, r) \<Rightarrow> xs
      | _ \<Rightarrow> [])"

definition demoEnv :: env where
  "demoEnv =
     \<lparr>pingConst = ''ping'', pongConst = ''pong!'', now = 0,
      genId = (\<lambda>n. replicate (Suc n) CHR ''i''),
      decodeToken = (\<lambda>t. if t = ''good'' \<or> t = ''upgrading'' then Inr demoToken
                          else if t = ''other'' then Inr (demoToken\<lparr>workspaceName := ''w2''\<rparr>)
                          else Inl ''Error: invalid token''),
      sm_addSession = (\<lambda>cs tok raw sid.
         if raw = ''upgrading'' then Inr (AddUpgrade JNull)
         else Inr (AddReady \<lparr>cr_session = demoSession, cr_workspaceId = ''w1''\<rparr>)),
      sm_handleRequest = (\<lambda>sn cs rq wsp.
         if rq_method rq = ''fail'' then Inl ''Error: dispatch''
         else if rq_method rq = ''reject'' then Inr (Promise 1 (Some ''Error: rejected''))
         else Inr (Promise 0 None)),
      rpc_readRequest = (\<lambda>b bin.
         if b = ''garbage'' then Inl ''Error: decode''
         else Inr \<lparr>rq_method = b, rq_params = [], rq_id = 1, rq_time = None\<rparr>),
      rpc_serialize = (\<lambda>m bin. if rs_id m = - 1 then ''info'' else ''reply''),
      compress = (\<lambda>b. b),
      ws_sendError = (\<lambda>w d. if w = 6 then Some ''Error: broken pipe'' else None),
      ws_closeError = (\<lambda>w r. None),
      resolvePipeline = (\<lambda>sn. Inr (pipelineRef sn)),
      includeSessionContext = (\<lambda>sn p. None),
      pipeline_findAll = (\<lambda>p cl q opts. Inr (JArr [])),
      pipeline_tx = (\<lambda>p txs. Inr (JObj [])),
      pipeline_loadModel = (\<lambda>p n. Inr (ModelResponse [JNum 1, JNum 2] ''h'' True)),
      getRawAccount = (\<lambda>sn p. Inr (AccountValue (JStr ''account''))),
      jsonStringify = demoStringify,
      textEncode = (\<lambda>t. t),
      gzip = (\<lambda>b. Inr (''gz'' @ b))\<rparr>"

definition demoSocket :: "ws \<Rightarrow> connectionSocket" where
  "demoSocket w =
     \<lparr>cs_id = (if w = 5 then ''c5'' else ''c6''), cs_ws = w,
      cs_data = \<lparr>remoteAddress = [], userAgent = [], language = [],
                 cd_email = ''user@example.com'', cd_mode = None, cd_model = None\<rparr>\<rparr>"

definition demoData :: "ws \<Rightarrow> websocketData" where
  "demoData w =
     \<lparr>connectionSocket = Some (demoSocket w), payload = demoToken, wd_token = ''good'',
      wd_session = \<lparr>cr_session = demoSession, cr_workspaceId = ''w1''\<rparr>, url = []\<rparr>"

definition demoState :: transactor where
  "demoState =
     \<lparr>workspace = ''w1'', sessions = [5 \<mapsto> demoData 5, 6 \<mapsto> demoData 6],
      autoResponse = Some (''ping'', ''pong!''),
      webSockets = [5, 6, 7],
      readyState = (\<lambda>w. if w = 7 then CLOSED else OPEN),
      isClosed = (\<lambda>i. False), nextId = 0, nextWs = 8, trace = []\<rparr>"

section \<open>Properties\<close>

subsection \<open>Observations distribute over the trace\<close>

lemma sentTo_append: "sentTo (xs @ ys) = sentTo xs @ sentTo ys"
  by (induction xs rule: sentTo.induct) simp_all

lemma written_append: "written (xs @ ys) = written xs @ written ys"
  by (induction xs rule: written.induct) simp_all

lemma closeCalls_append: "closeCalls (xs @ ys) = closeCalls xs @ closeCalls ys"
  by (induction xs rule: closeCalls.induct) simp_all

lemma cleanups_append: "cleanups (xs @ ys) = cleanups xs @ cleanups ys"
  by (induction xs rule: cleanups.induct) simp_all

lemma dispatched_append: "dispatched (xs @ ys) = dispatched xs @ dispatched ys"
  by (induction xs rule: dispatched.induct) simp_all

lemma codecReads_append: "codecReads (xs @ ys) = codecReads xs @ codecReads ys"
  by (induction xs rule: codecReads.induct) simp_all

lemma measured_append: "measured (xs @ ys) = measured xs @ measured ys"
  by (induction xs rule: measured.induct) simp_all

lemma errorsLogged_append: "errorsLogged (xs @ ys) = errorsLogged xs @ errorsLogged ys"
  by (induction xs rule: errorsLogged.induct) simp_all

lemmas obs_append =
  sentTo_append written_append closeCalls_append cleanups_append dispatched_append codecReads_append
  measured_append errorsLogged_append

subsection \<open>Frame properties of the primitives\<close>

lemma emit_fields:
  "trace (emit e s) = trace s @ [e]"
  "workspace (emit e s) = workspace s"
  "sessions (emit e s) = sessions s"
  "readyState (emit e s) = readyState s"
  "isClosed (emit e s) = isClosed s"
  "webSockets (emit e s) = webSockets s"
  "autoResponse (emit e s) = autoResponse s"
  "nextId (emit e s) = nextId s"
  "nextWs (emit e s) = nextWs s"
  by (simp_all add: emit_def)

lemma ws_send_state: "snd (ws_send env w d s) = emit (WsSend w d) s"
  by (simp add: ws_send_def Let_def split: option.split)

lemma ws_close_result:
  "fst (ws_close env w c r s) =
     (case ws_closeError env w (readyState s w) of Some e \<Rightarrow> Inl e | None \<Rightarrow> Inr ())"
  by (simp add: ws_close_def Let_def emit_fields split: option.split)

lemma ws_close_fields:
  "trace (snd (ws_close env w c r s)) = trace s @ [WsClose w c r]"
  "workspace (snd (ws_close env w c r s)) = workspace s"
  "sessions (snd (ws_close env w c r s)) = sessions s"
  "isClosed (snd (ws_close env w c r s)) = isClosed s"
  "webSockets (snd (ws_close env w c r s)) = webSockets s"
  "nextId (snd (ws_close env w c r s)) = nextId s"
  "autoResponse (snd (ws_close env w c r s)) = autoResponse s"
  by (simp_all add: ws_close_def Let_def emit_fields split: option.split)

lemma ws_close_readyState:
  "readyState (snd (ws_close env w c r s)) =
     (case ws_closeError env w (readyState s w) of
        Some e \<Rightarrow> readyState s
      | None \<Rightarrow> (readyState s)(w := afterClose (readyState s w)))"
  by (simp add: ws_close_def Let_def emit_fields split: option.split)

subsection \<open>Closing a connection\<close>

lemma handleClose_result: "fst (handleClose env w code reason s) = Inr ()"
  by (simp add: handleClose_def Let_def sm_close_def split: option.split prod.split sum.split)

lemma handleClose_trace:
  "trace (snd (handleClose env w code reason s)) =
     trace s @ [ConsoleLog ''Closing connection with code'', WsClose w (Some code) reason]
       @ (case ws_closeError env w (readyState s w) of
            Some e \<Rightarrow> [ConsoleError ''Failed to close WebSocket:''] | None \<Rightarrow> [])
       @ (case sessions s w of
            None \<Rightarrow> []
          | Some sn \<Rightarrow> [ConsoleLog ''Cleaning up session for'',
                        SmClose (map_option cs_id (connectionSocket sn)) (workspace s)])"
  by (simp add: handleClose_def Let_def sm_close_def ws_close_def emit_fields split: option.split)

lemma handleClose_fields:
  "sessions (snd (handleClose env w code reason s)) = (sessions s)(w := None)"
  "workspace (snd (handleClose env w code reason s)) = workspace s"
  "isClosed (snd (handleClose env w code reason s)) = isClosed s"
  "webSockets (snd (handleClose env w code reason s)) = webSockets s"
  "nextId (snd (handleClose env w code reason s)) = nextId s"
  "autoResponse (snd (handleClose env w code reason s)) = autoResponse s"
  by (auto simp add: handleClose_def Let_def sm_close_def ws_close_def emit_fields
      split: option.split)

lemma handleClose_closeCalls:
  "closeCalls (trace (snd (handleClose env w code reason s))) =
     closeCalls (trace s) @ [(w, Some code, reason)]"
  by (simp add: handleClose_trace obs_append split: option.split)


lemma handleClose_sentTo:
  "sentTo (trace (snd (handleClose env w code reason s))) = sentTo (trace s)"
  by (simp add: handleClose_trace obs_append split: option.split)
subsection \<open>The connection socket\<close>

lemma send_dead:
  assumes "readyState s (cs_ws cs) \<noteq> OPEN \<or> isClosed s (cs_id cs)"
  shows "send env cs msg binary compression s =
           (Inr (), emit (Measure ''send-data'' (length (rpc_serialize env msg binary))) s)"
  using assms by (auto simp add: send_def Let_def emit_fields)

lemma send_live:
  assumes "readyState s (cs_ws cs) = OPEN" and "\<not> isClosed s (cs_id cs)"
  shows "send env cs msg binary compression s =
           ws_send env (cs_ws cs)
             (if compression then compress env (rpc_serialize env msg binary)
              else rpc_serialize env msg binary)
             (emit (Measure ''send-data'' (length (rpc_serialize env msg binary))) s)"
  using assms by (simp add: send_def Let_def emit_fields)

lemma sendPong_dead:
  assumes "readyState s (cs_ws cs) \<noteq> OPEN \<or> isClosed s (cs_id cs)"
  shows "sendPong env cs s = (Inr (), s)"
  using assms by (auto simp add: sendPong_def)

lemma readRequest_probe:
  "readRequest env cs (pingConst env) binary s =
     (Inr \<lparr>rq_method = pingConst env, rq_params = [], rq_id = - 1, rq_time = Some (now env)\<rparr>, s)"
  by (simp add: readRequest_def)

lemma readRequest_other:
  "buffer \<noteq> pingConst env \<Longrightarrow>
   readRequest env cs buffer binary s =
     (rpc_readRequest env buffer binary, emit (RpcReadRequest buffer binary) s)"
  by (simp add: readRequest_def rpcHandler_readRequest_def)

subsection \<open>Frames\<close>

lemma processFrame_fields:
  "workspace (snd (processFrame env wsp cs cr buff s)) = workspace s"
  "sessions (snd (processFrame env wsp cs cr buff s)) = sessions s"
  "readyState (snd (processFrame env wsp cs cr buff s)) = readyState s"
  "isClosed (snd (processFrame env wsp cs cr buff s)) = isClosed s"
  "webSockets (snd (processFrame env wsp cs cr buff s)) = webSockets s"
  "closeCalls (trace (snd (processFrame env wsp cs cr buff s))) = closeCalls (trace s)"
  "cleanups (trace (snd (processFrame env wsp cs cr buff s))) = cleanups (trace s)"
  "sentTo (trace (snd (processFrame env wsp cs cr buff s))) = sentTo (trace s)"
  "errorsLogged (trace (snd (processFrame env wsp cs cr buff s))) = errorsLogged (trace s)"
  "autoResponse (snd (processFrame env wsp cs cr buff s)) = autoResponse s"
  by (simp_all add: processFrame_def Let_def readRequest_def rpcHandler_readRequest_def
      emit_fields obs_append split: sum.split prod.split)

lemma processFrame_decode_fails:
  assumes "buff \<noteq> pingConst env" and "rpc_readRequest env buff (binaryMode (cr_session cr)) = Inl e"
  shows "fst (processFrame env wsp cs cr buff s) = Inl e"
    and "dispatched (trace (snd (processFrame env wsp cs cr buff s))) = dispatched (trace s)"
  using assms
  by (simp_all add: processFrame_def Let_def readRequest_other emit_fields obs_append)

lemma processFrame_dispatch_fails:
  assumes "fst (readRequest env cs buff (binaryMode (cr_session cr))
                  (emit (Measure ''receive-data'' (length buff)) s)) = Inr rq"
      and "sm_handleRequest env (cr_session cr) (cs_id cs) rq wsp = Inl e"
  shows "fst (processFrame env wsp cs cr buff s) = Inl e"
  using assms
  by (cases "readRequest env cs buff (binaryMode (cr_session cr))
               (emit (Measure ''receive-data'' (length buff)) s)")
     (simp add: processFrame_def Let_def)

lemma processFrame_probe:
  "dispatched (trace (snd (processFrame env wsp cs cr (pingConst env) s))) =
     dispatched (trace s) @
       [\<lparr>rq_method = pingConst env, rq_params = [], rq_id = - 1, rq_time = Some (now env)\<rparr>]"
  "codecReads (trace (snd (processFrame env wsp cs cr (pingConst env) s))) = codecReads (trace s)"
  by (simp_all add: processFrame_def Let_def readRequest_probe emit_fields obs_append
      split: sum.split)

lemma webSocketMessage_result: "fst (webSocketMessage env w message s) = Inr ()"
  by (simp add: webSocketMessage_def split: option.split prod.split sum.split)

lemma webSocketMessage_unregistered:
  assumes "sessions s w = None \<or> (\<exists>sn. sessions s w = Some sn \<and> connectionSocket sn = None)"
  shows "webSocketMessage env w message s = (Inr (), s)"
  using assms by (auto simp add: webSocketMessage_def)

lemma webSocketMessage_established:
  assumes "sessions s w = Some sn" and "connectionSocket sn = Some cs"
  shows "snd (webSocketMessage env w message s) =
           (case fst (processFrame env (workspace s) cs (wd_session sn) message s) of
              Inl err \<Rightarrow> emit (ConsoleError ''Failed to handle message:'')
                           (snd (processFrame env (workspace s) cs (wd_session sn) message s))
            | Inr u \<Rightarrow> snd (processFrame env (workspace s) cs (wd_session sn) message s))"
  using assms
  by (simp add: webSocketMessage_def doSessionOp_def split: prod.split sum.split)

lemma webSocketMessage_fields:
  "workspace (snd (webSocketMessage env w message s)) = workspace s"
  "sessions (snd (webSocketMessage env w message s)) = sessions s"
  "readyState (snd (webSocketMessage env w message s)) = readyState s"
  "isClosed (snd (webSocketMessage env w message s)) = isClosed s"
  "webSockets (snd (webSocketMessage env w message s)) = webSockets s"
  "closeCalls (trace (snd (webSocketMessage env w message s))) = closeCalls (trace s)"
  "cleanups (trace (snd (webSocketMessage env w message s))) = cleanups (trace s)"
  "sentTo (trace (snd (webSocketMessage env w message s))) = sentTo (trace s)"
  "autoResponse (snd (webSocketMessage env w message s)) = autoResponse s"
proof -
  have *: "P (snd (webSocketMessage env w message s))"
    if "P s" and "\<And>cs cr. P (snd (processFrame env (workspace s) cs cr message s))"
       and "\<And>cs cr. P (emit (ConsoleError ''Failed to handle message:'')
                (snd (processFrame env (workspace s) cs cr message s)))"
    for P
    using that
    by (simp add: webSocketMessage_def doSessionOp_def split: option.split prod.split sum.split)
       (metis snd_conv)
  show "workspace (snd (webSocketMessage env w message s)) = workspace s"
    by (rule *) (simp_all add: emit_fields processFrame_fields)
  show "sessions (snd (webSocketMessage env w message s)) = sessions s"
    by (rule *) (simp_all add: emit_fields processFrame_fields)
  show "readyState (snd (webSocketMessage env w message s)) = readyState s"
    by (rule *) (simp_all add: emit_fields processFrame_fields)
  show "isClosed (snd (webSocketMessage env w message s)) = isClosed s"
    by (rule *) (simp_all add: emit_fields processFrame_fields)
  show "webSockets (snd (webSocketMessage env w message s)) = webSockets s"
    by (rule *) (simp_all add: emit_fields processFrame_fields)
  show "closeCalls (trace (snd (webSocketMessage env w message s))) = closeCalls (trace s)"
    by (rule *) (simp_all add: emit_fields processFrame_fields obs_append)
  show "cleanups (trace (snd (webSocketMessage env w message s))) = cleanups (trace s)"
    by (rule *) (simp_all add: emit_fields processFrame_fields obs_append)
  show "sentTo (trace (snd (webSocketMessage env w message s))) = sentTo (trace s)"
    by (rule *) (simp_all add: emit_fields processFrame_fields obs_append)
  show "autoResponse (snd (webSocketMessage env w message s)) = autoResponse s"
    by (rule *) (simp_all add: emit_fields processFrame_fields)
qed

lemma webSocketMessage_logs_failure:
  assumes "sessions s w = Some sn" and "connectionSocket sn = Some cs"
      and "fst (processFrame env (workspace s) cs (wd_session sn) message s) = Inl e"
  shows "errorsLogged (trace (snd (webSocketMessage env w message s))) =
           errorsLogged (trace s) @ [''Failed to handle message:'']"
  using assms
  by (simp add: webSocketMessage_established emit_fields obs_append processFrame_fields)

lemma webSocketError_fields:
  "fst (webSocketError env w error s) = Inr ()"
  "closeCalls (trace (snd (webSocketError env w error s))) =
     closeCalls (trace s) @ [(w, Some 1011, Some ''error'')]"
  "sessions (snd (webSocketError env w error s)) = (sessions s)(w := None)"
  "workspace (snd (webSocketError env w error s)) = workspace s"
  "autoResponse (snd (webSocketError env w error s)) = autoResponse s"
  by (simp_all add: webSocketError_def handleClose_result handleClose_closeCalls
      handleClose_fields emit_fields obs_append)
subsection \<open>Broadcast\<close>

lemma sendMessage_ok:
  assumes "ws_sendError env w message = None"
  shows "sendMessage env w message s = (Inr (), emit (WsSend w message) s)"
  using assms by (simp add: sendMessage_def ws_send_def Let_def)

lemma sendMessage_failed:
  assumes "ws_sendError env w message = Some e"
  shows "sendMessage env w message s =
           handleClose env w 1011 (Some ''error'')
             (emit (ConsoleError ''Failed to send message:'') (emit (WsSend w message) s))"
  using assms by (simp add: sendMessage_def ws_send_def Let_def)

lemma sendMessage_fields:
  "fst (sendMessage env w message s) = Inr ()"
  "sentTo (trace (snd (sendMessage env w message s))) = sentTo (trace s) @ [(w, message)]"
  "closeCalls (trace (snd (sendMessage env w message s))) =
     closeCalls (trace s) @
       (if ws_sendError env w message = None then [] else [(w, Some 1011, Some ''error'')])"
  "sessions (snd (sendMessage env w message s)) =
     (if ws_sendError env w message = None then sessions s else (sessions s)(w := None))"
  "workspace (snd (sendMessage env w message s)) = workspace s"
  "autoResponse (snd (sendMessage env w message s)) = autoResponse s"
  by (cases "ws_sendError env w message";
      simp add: sendMessage_ok sendMessage_failed emit_fields obs_append handleClose_result
        handleClose_sentTo handleClose_closeCalls handleClose_fields)+

lemma sendAll_result: "fst (sendAll env message wss s) = Inr ()"
proof (induction wss arbitrary: s)
  case Nil
  show ?case by simp
next
  case (Cons w wss)
  have "fst (sendMessage env w message s) = Inr ()"
    by (rule sendMessage_fields)
  then show ?case
    using Cons.IH [of "snd (sendMessage env w message s)"]
    by (simp add: split_beta)
qed

lemma sendAll_snd:
  "snd (sendAll env message (w # wss) s) = snd (sendAll env message wss (snd (sendMessage env w message s)))"
  by (simp add: split_beta)

lemma sendAll_sentTo:
  "sentTo (trace (snd (sendAll env message wss s))) =
     sentTo (trace s) @ map (\<lambda>w. (w, message)) wss"
proof (induction wss arbitrary: s)
  case Nil
  show ?case by simp
next
  case (Cons w wss)
  show ?case
    by (simp only: sendAll_snd Cons.IH sendMessage_fields) simp
qed

lemma sendAll_closeCalls:
  "closeCalls (trace (snd (sendAll env message wss s))) =
     closeCalls (trace s) @
       map (\<lambda>w. (w, Some 1011, Some ''error''))
         (filter (\<lambda>w. ws_sendError env w message \<noteq> None) wss)"
proof (induction wss arbitrary: s)
  case Nil
  show ?case by simp
next
  case (Cons w wss)
  show ?case
    by (simp only: sendAll_snd Cons.IH sendMessage_fields) simp
qed

lemma sendAll_sessions:
  "sessions (snd (sendAll env message wss s)) w' =
     (if w' \<in> set wss \<and> ws_sendError env w' message \<noteq> None then None else sessions s w')"
proof (induction wss arbitrary: s)
  case Nil
  show ?case by simp
next
  case (Cons w wss)
  show ?case
    by (simp only: sendAll_snd Cons.IH sendMessage_fields) auto
qed

lemma sendAll_workspace: "workspace (snd (sendAll env message wss s)) = workspace s"
proof (induction wss arbitrary: s)
  case Nil
  show ?case by simp
next
  case (Cons w wss)
  show ?case
    by (simp only: sendAll_snd Cons.IH sendMessage_fields)
qed

lemma sendAll_autoResponse: "autoResponse (snd (sendAll env message wss s)) = autoResponse s"
proof (induction wss arbitrary: s)
  case Nil
  show ?case by simp
next
  case (Cons w wss)
  show ?case
    by (simp only: sendAll_snd Cons.IH sendMessage_fields)
qed

lemma broadcastMessage_unfold:
  "broadcastMessage env message s =
     sendAll env message (filter (\<lambda>w. readyState s w = OPEN) (webSockets s))
       (emit (ConsoleLog ''broadcast'') s)"
  by (simp add: broadcastMessage_def Let_def getWebSockets_def emit_fields)
subsection \<open>Admission\<close>

lemma createWebsocketClientSocket_fields:
  "fst (createWebsocketClientSocket env w d s) = \<lparr>cs_id = genId env (nextId s), cs_ws = w, cs_data = d\<rparr>"
  "workspace (snd (createWebsocketClientSocket env w d s)) = workspace s"
  "sessions (snd (createWebsocketClientSocket env w d s)) = sessions s"
  "trace (snd (createWebsocketClientSocket env w d s)) = trace s"
  "readyState (snd (createWebsocketClientSocket env w d s)) = readyState s"
  "webSockets (snd (createWebsocketClientSocket env w d s)) = webSockets s"
  "isClosed (snd (createWebsocketClientSocket env w d s)) = (isClosed s)(genId env (nextId s) := False)"
  "autoResponse (snd (createWebsocketClientSocket env w d s)) = autoResponse s"
  by (simp_all add: createWebsocketClientSocket_def generateId_def Let_def)

lemma acceptWebSocket_fields:
  "workspace (acceptWebSocket w s) = workspace s"
  "sessions (acceptWebSocket w s) = sessions s"
  "trace (acceptWebSocket w s) = trace s @ [AcceptWebSocket w]"
  "readyState (acceptWebSocket w s) = readyState s"
  "isClosed (acceptWebSocket w s) = isClosed s"
  "nextId (acceptWebSocket w s) = nextId s"
  "autoResponse (acceptWebSocket w s) = autoResponse s"
  by (simp_all add: acceptWebSocket_def emit_fields)

lemma send_workspace: "workspace (snd (send env cs msg binary compression s)) = workspace s"
  by (simp add: send_def Let_def ws_send_state emit_fields)

lemma close_workspace: "workspace (snd (close env cs s)) = workspace s"
  by (simp add: close_def ws_close_fields)

lemma handleSession_admitted_workspace:
  "workspace (snd (handleSession_admitted env w cs tok rawToken res s)) = workspace s"
proof (cases res)
  case (AddError err terminate)
  then show ?thesis
    by (simp add: handleSession_admitted_def Let_def case_prod_beta ws_close_fields emit_fields
        split: sum.split)
next
  case (AddUpgrade info)
  then show ?thesis
    by (simp add: handleSession_admitted_def case_prod_beta close_workspace send_workspace
        split: sum.split)
next
  case (AddReady cr)
  then show ?thesis
    by (simp add: handleSession_admitted_def Let_def emit_fields)
next
  case AddNoSession
  then show ?thesis
    by (simp add: handleSession_admitted_def)
qed

lemma handleSession_catch_fields:
  "workspace (snd (handleSession_catch env w err s)) = workspace s"
  "sessions (snd (handleSession_catch env w err s)) = sessions s"
  by (simp_all add: handleSession_catch_def Let_def case_prod_beta ws_close_fields emit_fields
      split: sum.split)

lemma handleSession_try_workspace:
  "workspace (snd (handleSession_try env w cs tok rawToken sid s)) = workspace s"
  by (simp add: handleSession_try_def Let_def handleSession_admitted_workspace emit_fields
      split: sum.split)

lemma handleSession_workspace:
  "workspace (snd (handleSession env w req tok rawToken sid s)) = workspace s"
  by (simp add: handleSession_def Let_def case_prod_beta handleSession_catch_fields
      handleSession_try_workspace createWebsocketClientSocket_fields acceptWebSocket_fields
      emit_fields split: sum.split)

lemma newWebSocketPair_fields:
  "fst (newWebSocketPair s) = (nextWs s, Suc (nextWs s))"
  "workspace (snd (newWebSocketPair s)) = workspace s"
  "sessions (snd (newWebSocketPair s)) = sessions s"
  "trace (snd (newWebSocketPair s)) = trace s"
  by (simp_all add: newWebSocketPair_def)

lemma fetch_workspace:
  "workspace (snd (fetch env req s)) =
     (if workspace s = [] then
        (case decodeToken env (drop 1 (pathname req)) of
           Inl e \<Rightarrow> [] | Inr pl \<Rightarrow> workspaceName pl)
      else workspace s)"
proof (cases "decodeToken env (drop 1 (pathname req))")
  case (Inl e)
  then show ?thesis
    by (simp add: fetch_def Let_def split_beta newWebSocketPair_fields emit_fields)
next
  case (Inr pl)
  have *: "workspace (snd (case fst (handleSession env w req pl raw sid s0) of
             Inl err \<Rightarrow> (Response 404 None, emit (ConsoleError ''Failed to handle request'')
                          (snd (handleSession env w req pl raw sid s0)))
           | Inr ok \<Rightarrow>
               (if \<not> ok then (Response 404 None, snd (handleSession env w req pl raw sid s0))
                else (Response 101 (Some c), snd (handleSession env w req pl raw sid s0))))) = workspace s0"
    for w raw sid s0 c
    by (simp add: emit_fields handleSession_workspace split: sum.split)
  show ?thesis
    using Inr
    by (simp add: fetch_def Let_def split_beta newWebSocketPair_fields * )
qed
subsection \<open>The bridge\<close>

lemma createDummyClientSocket_fields:
  "fst (createDummyClientSocket env s) = genId env (nextId s)"
  "workspace (snd (createDummyClientSocket env s)) = workspace s"
  "sessions (snd (createDummyClientSocket env s)) = sessions s"
  "trace (snd (createDummyClientSocket env s)) = trace s"
  "nextId (snd (createDummyClientSocket env s)) = Suc (nextId s)"
  "autoResponse (snd (createDummyClientSocket env s)) = autoResponse s"
  by (simp_all add: createDummyClientSocket_def generateId_def Let_def)

lemma makeRpcSession_invalid_token:
  "decodeToken env rawToken = Inl e \<Longrightarrow> makeRpcSession env rawToken cs s = (Inl e, s)"
  by (simp add: makeRpcSession_def)

lemma makeRpcSession_fields:
  "sessions (snd (makeRpcSession env rawToken cs s)) = sessions s"
  "cleanups (trace (snd (makeRpcSession env rawToken cs s))) = cleanups (trace s)"
  "sentTo (trace (snd (makeRpcSession env rawToken cs s))) = sentTo (trace s)"
  "autoResponse (snd (makeRpcSession env rawToken cs s)) = autoResponse s"
  by (simp_all add: makeRpcSession_def Let_def generateId_def emit_fields obs_append
      split: sum.split addSessionResult.split)

lemma makeRpcSession_result:
  "fst (makeRpcSession env rawToken cs s) =
     (case decodeToken env rawToken of
        Inl e \<Rightarrow> Inl e
      | Inr tok \<Rightarrow>
          (case sm_addSession env cs tok rawToken (Some (genId env (nextId s))) of
             Inl e \<Rightarrow> Inl e
           | Inr (AddError e terminate) \<Rightarrow> Inl e
           | Inr (AddUpgrade info) \<Rightarrow> Inl ''Error: Workspace is upgrading''
           | Inr (AddReady cr) \<Rightarrow> Inr (cr_session cr)
           | Inr AddNoSession \<Rightarrow> Inl ''Error: No session''))"
  by (simp add: makeRpcSession_def Let_def generateId_def
      split: sum.split addSessionResult.split)

lemma makeRpcSession_binds:
  "workspace (snd (makeRpcSession env rawToken cs s)) =
     (if workspace s = [] then
        (case decodeToken env rawToken of
           Inl e \<Rightarrow> []
         | Inr tok \<Rightarrow>
             (case sm_addSession env cs tok rawToken (Some (genId env (nextId s))) of
                Inr (AddReady cr) \<Rightarrow> workspaceName tok
              | _ \<Rightarrow> []))
      else workspace s)"
  by (simp add: makeRpcSession_def Let_def generateId_def emit_fields
      split: sum.split addSessionResult.split)

lemma findAll_try_state:
  "snd (findAll_try env rawToken cs cl query options s) = snd (makeRpcSession env rawToken cs s)"
  by (simp add: findAll_try_def split: prod.split sum.split option.split)

lemma tx_try_state:
  "snd (tx_try env rawToken cs t s) = snd (makeRpcSession env rawToken cs s)"
  by (simp add: tx_try_def split: prod.split sum.split option.split)

lemma getModel_try_state:
  "snd (getModel_try env rawToken cs s) = snd (makeRpcSession env rawToken cs s)"
  by (simp add: getModel_try_def split: prod.split sum.split option.split)

lemma getAccount_try_state:
  "snd (getAccount_try env rawToken cs s) = snd (makeRpcSession env rawToken cs s)"
  by (simp add: getAccount_try_def split: prod.split sum.split option.split)

lemma findAll_unfold:
  "findAll env rawToken workspaceId cl query options s =
     (Inr (case fst (findAll_try env rawToken (genId env (nextId s)) cl query options
                       (snd (createDummyClientSocket env s))) of
             Inr v \<Rightarrow> v | Inl error \<Rightarrow> errorObject error),
      emit (SmClose (Some (genId env (nextId s)))
              (workspace (snd (makeRpcSession env rawToken (genId env (nextId s))
                                 (snd (createDummyClientSocket env s))))))
        (snd (makeRpcSession env rawToken (genId env (nextId s))
                (snd (createDummyClientSocket env s)))))"
  by (simp add: findAll_def Let_def case_prod_beta sm_close_def createDummyClientSocket_fields
      findAll_try_state)

lemma tx_unfold:
  "tx env rawToken workspaceId t s =
     (Inr (case fst (tx_try env rawToken (genId env (nextId s)) t
                       (snd (createDummyClientSocket env s))) of
             Inr v \<Rightarrow> v | Inl error \<Rightarrow> errorObject error),
      emit (SmClose (Some (genId env (nextId s)))
              (workspace (snd (makeRpcSession env rawToken (genId env (nextId s))
                                 (snd (createDummyClientSocket env s))))))
        (snd (makeRpcSession env rawToken (genId env (nextId s))
                (snd (createDummyClientSocket env s)))))"
  by (simp add: tx_def Let_def case_prod_beta sm_close_def createDummyClientSocket_fields
      tx_try_state)

lemma getAccount_state:
  "snd (getAccount env rawToken s) =
     emit (SmClose (Some (genId env (nextId s)))
             (workspace (snd (makeRpcSession env rawToken (genId env (nextId s))
                                (snd (createDummyClientSocket env s))))))
       (snd (makeRpcSession env rawToken (genId env (nextId s))
               (snd (createDummyClientSocket env s))))"
  by (simp add: getAccount_def Let_def case_prod_beta sm_close_def createDummyClientSocket_fields
      getAccount_try_state split: sum.split accountResult.split)


lemma getModel_state:
  "snd (getModel env rawToken s) =
     emit (SmClose (Some (genId env (nextId s)))
             (workspace (snd (makeRpcSession env rawToken (genId env (nextId s))
                                (snd (createDummyClientSocket env s))))))
       (snd (makeRpcSession env rawToken (genId env (nextId s))
               (snd (createDummyClientSocket env s))))"
  by (simp add: getModel_def Let_def case_prod_beta sm_close_def createDummyClientSocket_fields
      getModel_try_state split: sum.split)

lemma getModel_result:
  "fst (getModel env rawToken s) =
     (case fst (getModel_try env rawToken (genId env (nextId s))
                  (snd (createDummyClientSocket env s))) of
        Inl error \<Rightarrow> Inr (ModelError (errorObject error))
      | Inr result \<Rightarrow>
          (case gzip env (textEncode env (jsonStringify env result)) of
             Inl e \<Rightarrow> Inl e
           | Inr compressed \<Rightarrow> Inr (Compressed compressed)))"
  by (simp add: getModel_def Let_def case_prod_beta sm_close_def createDummyClientSocket_fields
      split: sum.split)

subsection \<open>The workspace binding along any operation\<close>

lemma broadcastMessage_workspace: "workspace (snd (broadcastMessage env message s)) = workspace s"
  by (simp add: broadcastMessage_unfold sendAll_workspace emit_fields)

lemma hostReceives_workspace: "workspace (snd (hostReceives env w fr s)) = workspace s"
  by (simp add: hostReceives_def webSocketMessage_fields emit_fields
      split: frame.split option.split prod.split)

lemma bridge_binds:
  "workspace (emit ev (snd (makeRpcSession env rawToken (genId env (nextId s))
                              (snd (createDummyClientSocket env s))))) =
     (if workspace s = [] then
        (case decodeToken env rawToken of
           Inl e \<Rightarrow> []
         | Inr tok \<Rightarrow>
             (case sm_addSession env (genId env (nextId s)) tok rawToken
                     (Some (genId env (Suc (nextId s)))) of
                Inr (AddReady cr) \<Rightarrow> workspaceName tok
              | _ \<Rightarrow> []))
      else workspace s)"
  by (simp add: emit_fields makeRpcSession_binds createDummyClientSocket_fields
      split: sum.split)

lemma step_workspace:
  "workspace (step env op s) = workspace s \<or> workspace s = []"
proof (cases op)
  case (Fetch req)
  then show ?thesis by (simp add: fetch_workspace)
next
  case (Incoming w fr)
  then show ?thesis by (simp add: hostReceives_workspace)
next
  case (WebSocketMessage w m)
  then show ?thesis by (simp add: webSocketMessage_fields)
next
  case (WebSocketError w e)
  then show ?thesis by (simp add: webSocketError_fields)
next
  case Alarm
  then show ?thesis by (simp add: alarm_def emit_fields)
next
  case (HandleSession w req tok raw sid)
  then show ?thesis by (simp add: handleSession_workspace)
next
  case (CreateWebsocketClientSocket w d)
  then show ?thesis by (simp add: createWebsocketClientSocket_fields)
next
  case (BroadcastMessage m)
  then show ?thesis by (simp add: broadcastMessage_workspace)
next
  case (SendMessage w m)
  then show ?thesis by (simp add: sendMessage_fields)
next
  case (HandleClose w c r)
  then show ?thesis by (simp add: handleClose_fields)
next
  case (FindAll raw wid cl q opts)
  then show ?thesis by (simp add: findAll_unfold bridge_binds)
next
  case (TxOp raw wid t)
  then show ?thesis by (simp add: tx_unfold bridge_binds)
next
  case (GetModel raw)
  then show ?thesis by (simp add: getModel_state bridge_binds)
next
  case (GetAccount raw)
  then show ?thesis by (simp add: getAccount_state bridge_binds)
qed

lemma run_keeps_bound: "workspace s \<noteq> [] \<Longrightarrow> workspace (run env ops s) = workspace s"
proof (induction ops arbitrary: s)
  case Nil
  show ?case by simp
next
  case (Cons op ops)
  have "workspace (step env op s) = workspace s"
    using Cons.prems step_workspace [of env op s] by blast
  then show ?case
    using Cons.IH [of "step env op s"] Cons.prems by simp
qed

subsection \<open>The registered auto response is never changed\<close>

lemma send_autoResponse: "autoResponse (snd (send env cs msg binary compression s)) = autoResponse s"
  by (simp add: send_def Let_def ws_send_state emit_fields)

lemma close_autoResponse: "autoResponse (snd (close env cs s)) = autoResponse s"
  by (simp add: close_def ws_close_fields)

lemma handleSession_admitted_autoResponse:
  "autoResponse (snd (handleSession_admitted env w cs tok rawToken res s)) = autoResponse s"
proof (cases res)
  case (AddError err terminate)
  then show ?thesis
    by (simp add: handleSession_admitted_def Let_def case_prod_beta ws_close_fields emit_fields
        split: sum.split)
next
  case (AddUpgrade info)
  then show ?thesis
    by (simp add: handleSession_admitted_def case_prod_beta close_autoResponse send_autoResponse
        split: sum.split)
next
  case (AddReady cr)
  then show ?thesis
    by (simp add: handleSession_admitted_def Let_def emit_fields)
next
  case AddNoSession
  then show ?thesis
    by (simp add: handleSession_admitted_def)
qed

lemma handleSession_autoResponse:
  "autoResponse (snd (handleSession env w req tok rawToken sid s)) = autoResponse s"
proof -
  have c: "autoResponse (snd (handleSession_catch env w err u)) = autoResponse u" for err u
    by (simp add: handleSession_catch_def Let_def case_prod_beta ws_close_fields emit_fields
        split: sum.split)
  have t: "autoResponse (snd (handleSession_try env w cs tok rawToken sid u)) = autoResponse u" for cs u
    by (simp add: handleSession_try_def Let_def handleSession_admitted_autoResponse emit_fields
        split: sum.split)
  show ?thesis
    by (simp add: handleSession_def Let_def case_prod_beta c t createWebsocketClientSocket_fields
        acceptWebSocket_fields emit_fields split: sum.split)
qed

lemma fetch_autoResponse: "autoResponse (snd (fetch env req s)) = autoResponse s"
proof (cases "decodeToken env (drop 1 (pathname req))")
  case (Inl e)
  then show ?thesis
    by (simp add: fetch_def Let_def split_beta newWebSocketPair_def emit_fields)
next
  case (Inr pl)
  have *: "autoResponse (snd (case fst (handleSession env w req pl raw sid s0) of
             Inl err \<Rightarrow> (Response 404 None, emit (ConsoleError ''Failed to handle request'')
                          (snd (handleSession env w req pl raw sid s0)))
           | Inr ok \<Rightarrow>
               (if \<not> ok then (Response 404 None, snd (handleSession env w req pl raw sid s0))
                else (Response 101 (Some c), snd (handleSession env w req pl raw sid s0))))) =
           autoResponse s0"
    for w raw sid s0 c
    by (simp add: emit_fields handleSession_autoResponse split: sum.split)
  show ?thesis
    using Inr
    by (simp add: fetch_def Let_def split_beta newWebSocketPair_def * )
qed

lemma hostReceives_autoResponse: "autoResponse (snd (hostReceives env w fr s)) = autoResponse s"
  by (simp add: hostReceives_def webSocketMessage_fields emit_fields
      split: frame.split option.split prod.split)

lemma step_autoResponse: "autoResponse (step env op s) = autoResponse s"
  by (cases op)
     (simp_all add: fetch_autoResponse hostReceives_autoResponse webSocketMessage_fields
        webSocketError_fields alarm_def emit_fields handleSession_autoResponse
        createWebsocketClientSocket_fields broadcastMessage_unfold sendAll_autoResponse
        sendMessage_fields handleClose_fields findAll_unfold tx_unfold getModel_state
        getAccount_state makeRpcSession_fields createDummyClientSocket_fields)

lemma run_autoResponse: "autoResponse (run env ops s) = autoResponse s"
  by (induction ops arbitrary: s) (simp_all add: step_autoResponse)

subsection \<open>The text format of the concrete environment reads back what it wrote\<close>

lemma takeWhile_ones: "takeWhile (\<lambda>c. c = CHR ''1'') (replicate n CHR ''1'' @ CHR ''.'' # r) = replicate n CHR ''1''"
  by (induction n) simp_all

lemma dropWhile_ones: "dropWhile (\<lambda>c. c = CHR ''1'') (replicate n CHR ''1'' @ CHR ''.'' # r) = CHR ''.'' # r"
  by (induction n) simp_all

lemma readUnary_unary: "readUnary (unary n @ r) = (n, r)"
  by (simp add: readUnary_def unary_def takeWhile_ones dropWhile_ones)

lemma readString_writeString: "readString (writeString t @ r) = (t, r)"
  by (simp add: readString_def writeString_def readUnary_unary)

lemma writeJson_nonempty: "writeJson v \<noteq> []"
  by (cases v) simp_all

lemma writeJson_head: "hd (writeJson v) \<noteq> CHR '']''"
  by (cases v) simp_all

lemma readArr_items:
  assumes "\<And>x f r. x \<in> set xs \<Longrightarrow> length (writeJson x) \<le> f \<Longrightarrow> readJson f (writeJson x @ r) = Some (x, r)"
      and "length (concat (map writeJson xs)) < f"
  shows "readArr f (concat (map writeJson xs) @ '']'' @ r) = Some (xs, r)"
  using assms
proof (induction xs arbitrary: f)
  case Nil
  then show ?case by (cases f) simp_all
next
  case (Cons x xs)
  obtain g where f: "f = Suc g" using Cons.prems(2) by (cases f) simp_all
  obtain c t where w: "writeJson x = c # t" using writeJson_nonempty [of x] by (cases "writeJson x") simp_all
  have c: "c \<noteq> CHR '']''" using writeJson_head [of x] w by simp
  have lenx: "length (writeJson x) \<le> g" using Cons.prems(2) f by simp
  have one: "readJson g (writeJson x @ concat (map writeJson xs) @ '']'' @ r) =
               Some (x, concat (map writeJson xs) @ '']'' @ r)"
    using Cons.prems(1) [of x g] lenx by simp
  have rest: "readArr g (concat (map writeJson xs) @ '']'' @ r) = Some (xs, r)"
  proof (rule Cons.IH)
    show "length (concat (map writeJson xs)) < g"
      using Cons.prems(2) f w by simp
  next
    fix y f' r'
    assume "y \<in> set xs" "length (writeJson y) \<le> f'"
    then show "readJson f' (writeJson y @ r') = Some (y, r')"
      using Cons.prems(1) by simp
  qed
  show ?case
    using one rest c by (simp add: f w)
qed

lemma readObj_items:
  assumes "\<And>k v f r. (k, v) \<in> set kvs \<Longrightarrow> length (writeJson v) \<le> f \<Longrightarrow>
             readJson f (writeJson v @ r) = Some (v, r)"
      and "length (concat (map (\<lambda>(k, v). ''k'' @ writeString k @ writeJson v) kvs)) < f"
  shows "readObj f (concat (map (\<lambda>(k, v). ''k'' @ writeString k @ writeJson v) kvs) @ ''}'' @ r) =
           Some (kvs, r)"
  using assms
proof (induction kvs arbitrary: f)
  case Nil
  then show ?case by (cases f) simp_all
next
  case (Cons kv kvs)
  obtain k v where kv: "kv = (k, v)" by (cases kv)
  obtain g where f: "f = Suc g" using Cons.prems(2) by (cases f) simp_all
  have lenv: "length (writeJson v) \<le> g" using Cons.prems(2) f kv by simp
  let ?rest = "concat (map (\<lambda>(k, v). ''k'' @ writeString k @ writeJson v) kvs) @ ''}'' @ r"
  have one: "readJson g (writeJson v @ ?rest) = Some (v, ?rest)"
    using Cons.prems(1) [of k v g] lenv kv by simp
  have rest: "readObj g ?rest = Some (kvs, r)"
  proof (rule Cons.IH)
    show "length (concat (map (\<lambda>(k, v). ''k'' @ writeString k @ writeJson v) kvs)) < g"
      using Cons.prems(2) f kv by simp
  next
    fix k' v' f' r'
    assume "(k', v') \<in> set kvs" "length (writeJson v') \<le> f'"
    then show "readJson f' (writeJson v' @ r') = Some (v', r')"
      using Cons.prems(1) [of k' v' f' r'] by simp
  qed
  have str: "readString (writeString k @ writeJson v @ ?rest) = (k, writeJson v @ ?rest)"
    by (rule readString_writeString)
  show ?case
    using one rest str by (simp add: f kv)
qed

lemma readJson_writeJson:
  "length (writeJson v) \<le> f \<Longrightarrow> readJson f (writeJson v @ r) = Some (v, r)"
proof (induction v arbitrary: f r)
  case JNull
  then show ?case by (cases f) simp_all
next
  case (JNum i)
  then show ?case by (cases f) (auto simp add: readUnary_unary split: if_splits)
next
  case (JStr t)
  then show ?case by (cases f) (simp_all add: readString_writeString)
next
  case (JArr xs)
  obtain g where f: "f = Suc g" using JArr.prems by (cases f) simp_all
  have "readArr g (concat (map writeJson xs) @ '']'' @ r) = Some (xs, r)"
  proof (rule readArr_items)
    show "length (concat (map writeJson xs)) < g"
      using JArr.prems f by simp
  next
    fix x f' r'
    assume "x \<in> set xs" "length (writeJson x) \<le> f'"
    then show "readJson f' (writeJson x @ r') = Some (x, r')"
      using JArr.IH by simp
  qed
  then show ?case by (simp add: f)
next
  case (JObj kvs)
  obtain g where f: "f = Suc g" using JObj.prems by (cases f) simp_all
  have "readObj g (concat (map (\<lambda>(k, v). ''k'' @ writeString k @ writeJson v) kvs) @ ''}'' @ r) =
          Some (kvs, r)"
  proof (rule readObj_items)
    show "length (concat (map (\<lambda>(k, v). ''k'' @ writeString k @ writeJson v) kvs)) < g"
      using JObj.prems f by simp
  next
    fix k v f' r'
    assume "(k, v) \<in> set kvs" "length (writeJson v) \<le> f'"
    then show "readJson f' (writeJson v @ r') = Some (v, r')"
      using JObj.IH [of "(k, v)" v] by simp
  qed
  then show ?case by (simp add: f)
qed

lemma demoParse_demoStringify: "demoParse (demoStringify txs) = txs"
  using readJson_writeJson [of "JArr txs" "length (writeJson (JArr txs))" "[]"]
  by (simp add: demoParse_def demoStringify_def)

subsection \<open>Frames that the host receives\<close>

lemma hostReceives_probe:
  assumes "autoResponse s = Some (rq, rsp)"
  shows "hostReceives env w (TextFrame rq) s = (Inr (), emit (AutoResponse w rsp) s)"
  using assms by (simp add: hostReceives_def)

lemma hostReceives_binary: "hostReceives env w (BinaryFrame b) s = webSocketMessage env w b s"
  by (simp add: hostReceives_def)

lemma processFrame_written:
  "written (trace (snd (processFrame env wsp cs cr buff s))) = written (trace s)"
  by (simp add: processFrame_def Let_def readRequest_def rpcHandler_readRequest_def
      emit_fields obs_append split: sum.split prod.split)

lemma webSocketMessage_written:
  "written (trace (snd (webSocketMessage env w message s))) = written (trace s)"
  by (simp add: webSocketMessage_def doSessionOp_def processFrame_written emit_fields obs_append
      split: option.split prod.split sum.split)
     (metis processFrame_written snd_conv)

lemma webSocketMessage_probe:
  assumes "sessions s w = Some sn" and "connectionSocket sn = Some cs"
  shows "dispatched (trace (snd (webSocketMessage env w (pingConst env) s))) =
           dispatched (trace s) @
             [\<lparr>rq_method = pingConst env, rq_params = [], rq_id = - 1, rq_time = Some (now env)\<rparr>]"
    and "codecReads (trace (snd (webSocketMessage env w (pingConst env) s))) = codecReads (trace s)"
  using assms
  by (simp_all add: webSocketMessage_established processFrame_probe emit_fields obs_append
      split: sum.split)

subsection \<open>A dispatch that returns a promise\<close>

lemma processFrame_promise:
  assumes "fst (readRequest env cs buff (binaryMode (cr_session cr))
                  (emit (Measure ''receive-data'' (length buff)) s)) = Inr rq"
      and "sm_handleRequest env (cr_session cr) (cs_id cs) rq wsp = Inr r"
  shows "fst (processFrame env wsp cs cr buff s) = Inr ()"
    and "trace (snd (processFrame env wsp cs cr buff s)) =
           trace (snd (readRequest env cs buff (binaryMode (cr_session cr))
                         (emit (Measure ''receive-data'' (length buff)) s)))
             @ [SmHandleRequest (sessionId (cr_session cr)) (cs_id cs) rq wsp,
                PromiseFinally (promiseId r), WaitUntil (promiseId r)]"
  using assms
  by (cases "readRequest env cs buff (binaryMode (cr_session cr))
               (emit (Measure ''receive-data'' (length buff)) s)";
      simp add: processFrame_def Let_def emit_fields)+

lemma readRequest_trace:
  "trace (snd (readRequest env cs buff binary s)) =
     trace s @ (if buff = pingConst env then [] else [RpcReadRequest buff binary])"
  by (simp add: readRequest_def rpcHandler_readRequest_def emit_fields)

lemma webSocketMessage_promise:
  assumes "sessions s w = Some sn" and "connectionSocket sn = Some cs"
      and "fst (readRequest env cs message (binaryMode (cr_session (wd_session sn)))
                  (emit (Measure ''receive-data'' (length message)) s)) = Inr rq"
      and "sm_handleRequest env (cr_session (wd_session sn)) (cs_id cs) rq (workspace s) = Inr r"
  shows "trace (snd (webSocketMessage env w message s)) =
           trace s @ [Measure ''receive-data'' (length message)]
             @ (if message = pingConst env then []
                else [RpcReadRequest message (binaryMode (cr_session (wd_session sn)))])
             @ [SmHandleRequest (sessionId (cr_session (wd_session sn))) (cs_id cs) rq (workspace s),
                PromiseFinally (promiseId r), WaitUntil (promiseId r)]"
  using assms processFrame_promise [OF assms(3) assms(4)]
  by (simp add: webSocketMessage_established readRequest_trace emit_fields)

lemma onSettled_fields:
  "fst (onSettled (Promise n outcome) s) = (case outcome of None \<Rightarrow> Inr () | Some e \<Rightarrow> Inl e)"
  "trace (snd (onSettled r s)) = trace s @ [ConsoleLog ''handle-request'']"
  "sessions (snd (onSettled r s)) = sessions s"
  by (simp_all add: onSettled_def emit_fields split: option.split)

subsection \<open>The outcome of the bridge operations in terms of the collaborators\<close>




lemma getModel_try_result:
  "fst (getModel_try env rawToken cs s) =
     (case fst (makeRpcSession env rawToken cs s) of
        Inl e \<Rightarrow> Inl e
      | Inr sn \<Rightarrow>
          (case resolvePipeline env sn of
             Inl e \<Rightarrow> Inl e
           | Inr p \<Rightarrow>
               (case includeSessionContext env sn p of
                  Some e \<Rightarrow> Inl e
                | None \<Rightarrow>
                    (case pipeline_loadModel env p 0 of
                       Inl e \<Rightarrow> Inl e
                     | Inr (TxArray txs) \<Rightarrow> Inr txs
                     | Inr (ModelResponse txs h f) \<Rightarrow> Inr txs))))"
  by (simp add: getModel_try_def transactionsOf_def
      split: prod.split sum.split option.split loadModelResponse.split)

lemma bridge_session:
  "fst (makeRpcSession env rawToken (genId env (nextId s)) (snd (createDummyClientSocket env s))) =
     (case decodeToken env rawToken of
        Inl e \<Rightarrow> Inl e
      | Inr tok \<Rightarrow>
          (case sm_addSession env (genId env (nextId s)) tok rawToken
                  (Some (genId env (Suc (nextId s)))) of
             Inl e \<Rightarrow> Inl e
           | Inr (AddError e terminate) \<Rightarrow> Inl e
           | Inr (AddUpgrade info) \<Rightarrow> Inl ''Error: Workspace is upgrading''
           | Inr (AddReady cr) \<Rightarrow> Inr (cr_session cr)
           | Inr AddNoSession \<Rightarrow> Inl ''Error: No session''))"
  by (simp add: makeRpcSession_result createDummyClientSocket_fields split: sum.split)
subsection \<open>The upgrading outcome on any transport\<close>

lemma handleSession_upgrading:
  assumes adm: "sm_addSession env (genId env (nextId s)) tok rawToken sid = Inr (AddUpgrade info)"
  shows "fst (handleSession env w req tok rawToken sid s) =
           (case (if readyState s w = OPEN
                  then ws_sendError env w (rpc_serialize env (upgradingMessage info) False)
                  else None) of
              Some e \<Rightarrow>
                (case ws_closeError env w (readyState s w) of None \<Rightarrow> Inl e | Some e' \<Rightarrow> Inl e')
            | None \<Rightarrow>
                (case ws_closeError env w (readyState s w) of None \<Rightarrow> Inr True | Some e' \<Rightarrow> Inl e'))"
    and "trace (snd (handleSession env w req tok rawToken sid s)) =
           trace s @ [ConsoleLog ''New session attempt'', AcceptWebSocket w,
                      SmAddSession (genId env (nextId s)) rawToken sid,
                      Measure ''send-data'' (length (rpc_serialize env (upgradingMessage info) False))]
             @ (if readyState s w = OPEN
                then [WsSend w (rpc_serialize env (upgradingMessage info) False)] else [])
             @ (case (if readyState s w = OPEN
                      then ws_sendError env w (rpc_serialize env (upgradingMessage info) False)
                      else None) of
                  Some e \<Rightarrow> [ConsoleError ''Failed to establish session:'',
                             WsClose w (Some 4003) (Some ''Session establishment failed'')]
                | None \<Rightarrow>
                    (case ws_closeError env w (readyState s w) of
                       None \<Rightarrow> [WsClose w None None]
                     | Some e' \<Rightarrow> [WsClose w None None,
                                    ConsoleError ''Failed to establish session:'',
                                    WsClose w (Some 4003) (Some ''Session establishment failed'')]))"
    and "sessions (snd (handleSession env w req tok rawToken sid s)) = sessions s"
    and "readyState (snd (handleSession env w req tok rawToken sid s)) w =
           (case ws_closeError env w (readyState s w) of
              None \<Rightarrow> afterClose (readyState s w) | Some e' \<Rightarrow> readyState s w)"
proof -
  let ?m = "rpc_serialize env (upgradingMessage info) False"
  let ?H = "handleSession env w req tok rawToken sid s"
  have H: "?H =
     (let s4 = emit (SmAddSession (genId env (nextId s)) rawToken sid)
                 (snd (createWebsocketClientSocket env w (clientDataOf req tok)
                    (acceptWebSocket w (emit (ConsoleLog ''New session attempt'') s))));
          cs = \<lparr>cs_id = genId env (nextId s), cs_ws = w, cs_data = clientDataOf req tok\<rparr>;
          p = handleSession_admitted env w cs tok rawToken (AddUpgrade info) s4 in
      case fst p of Inr b \<Rightarrow> (Inr b, snd p) | Inl err \<Rightarrow> handleSession_catch env w err (snd p))"
    using adm
    by (simp add: handleSession_def handleSession_try_def Let_def case_prod_beta
        createWebsocketClientSocket_fields acceptWebSocket_fields emit_fields
        split: sum.split)
  show "fst ?H =
           (case (if readyState s w = OPEN then ws_sendError env w ?m else None) of
              Some e \<Rightarrow>
                (case ws_closeError env w (readyState s w) of None \<Rightarrow> Inl e | Some e' \<Rightarrow> Inl e')
            | None \<Rightarrow>
                (case ws_closeError env w (readyState s w) of None \<Rightarrow> Inr True | Some e' \<Rightarrow> Inl e'))"
    by (simp add: H Let_def handleSession_admitted_def handleSession_catch_def send_def close_def
        ws_send_def ws_close_def createWebsocketClientSocket_def generateId_def
        acceptWebSocket_def emit_def split: option.split)
  show "trace (snd ?H) =
           trace s @ [ConsoleLog ''New session attempt'', AcceptWebSocket w,
                      SmAddSession (genId env (nextId s)) rawToken sid,
                      Measure ''send-data'' (length ?m)]
             @ (if readyState s w = OPEN then [WsSend w ?m] else [])
             @ (case (if readyState s w = OPEN then ws_sendError env w ?m else None) of
                  Some e \<Rightarrow> [ConsoleError ''Failed to establish session:'',
                             WsClose w (Some 4003) (Some ''Session establishment failed'')]
                | None \<Rightarrow>
                    (case ws_closeError env w (readyState s w) of
                       None \<Rightarrow> [WsClose w None None]
                     | Some e' \<Rightarrow> [WsClose w None None,
                                    ConsoleError ''Failed to establish session:'',
                                    WsClose w (Some 4003) (Some ''Session establishment failed'')]))"
    by (simp add: H Let_def handleSession_admitted_def handleSession_catch_def send_def close_def
        ws_send_def ws_close_def createWebsocketClientSocket_def generateId_def
        acceptWebSocket_def emit_def split: option.split)
  show "sessions (snd ?H) = sessions s"
    by (simp add: H Let_def handleSession_admitted_def handleSession_catch_def send_def close_def
        ws_send_def ws_close_def createWebsocketClientSocket_def generateId_def
        acceptWebSocket_def emit_def split: option.split)
  show "readyState (snd ?H) w =
           (case ws_closeError env w (readyState s w) of
              None \<Rightarrow> afterClose (readyState s w) | Some e' \<Rightarrow> readyState s w)"
    by (simp add: H Let_def handleSession_admitted_def handleSession_catch_def send_def close_def
        ws_send_def ws_close_def createWebsocketClientSocket_def generateId_def
        acceptWebSocket_def emit_def afterClose_def split: option.split)
qed
subsection \<open>A successful model snapshot\<close>

lemma getModel_success:
  assumes "fst (getModel env raw s) = Inr (Compressed z)"
  shows "\<exists>tok cr p txs.
           decodeToken env raw = Inr tok
         \<and> sm_addSession env (genId env (nextId s)) tok raw (Some (genId env (Suc (nextId s)))) =
             Inr (AddReady cr)
         \<and> resolvePipeline env (cr_session cr) = Inr p
         \<and> (pipeline_loadModel env p 0 = Inr (TxArray txs)
              \<or> (\<exists>h f. pipeline_loadModel env p 0 = Inr (ModelResponse txs h f)))
         \<and> gzip env (textEncode env (jsonStringify env txs)) = Inr z"
  using assms
  by (auto simp add: getModel_result getModel_try_result bridge_session
      split: sum.splits addSessionResult.splits option.splits loadModelResponse.splits)
section \<open>The claims\<close>

text \<open>
  C1. For every actor instance the workspace identity is bound at most once. Once the
  field \<open>workspace\<close> is not the empty string, no sequence of operations changes it.
  While it is the empty string, \<open>fetch\<close> sets it to the workspace name of the token in
  the request's path, as soon as \<open>decodeToken\<close> accepts that token; a bridge operation
  (\<open>findAll\<close>, \<open>tx\<close>, \<open>getModel\<close>, \<open>getAccount\<close>, through \<open>makeRpcSession\<close>) sets it to
  the workspace name of its own token, once that token is decoded and \<open>addSession\<close> has
  answered with a session for it; no other operation writes it at all.
\<close>

theorem workspace_bound_at_most_once:
  "(workspace s \<noteq> [] \<longrightarrow> workspace (run env ops s) = workspace s)
   \<and> workspace (snd (fetch env req s)) =
       (if workspace s = [] then
          (case decodeToken env (drop 1 (pathname req)) of
             Inl e \<Rightarrow> [] | Inr pl \<Rightarrow> workspaceName pl)
        else workspace s)
   \<and> workspace (snd (findAll env raw wid cl q opts s)) =
       (if workspace s = [] then
          (case decodeToken env raw of
             Inl e \<Rightarrow> []
           | Inr tok \<Rightarrow>
               (case sm_addSession env (genId env (nextId s)) tok raw
                       (Some (genId env (Suc (nextId s)))) of
                  Inr (AddReady cr) \<Rightarrow> workspaceName tok
                | _ \<Rightarrow> []))
        else workspace s)
   \<and> workspace (snd (tx env raw wid t s)) =
       (if workspace s = [] then
          (case decodeToken env raw of
             Inl e \<Rightarrow> []
           | Inr tok \<Rightarrow>
               (case sm_addSession env (genId env (nextId s)) tok raw
                       (Some (genId env (Suc (nextId s)))) of
                  Inr (AddReady cr) \<Rightarrow> workspaceName tok
                | _ \<Rightarrow> []))
        else workspace s)
   \<and> workspace (snd (getModel env raw s)) =
       (if workspace s = [] then
          (case decodeToken env raw of
             Inl e \<Rightarrow> []
           | Inr tok \<Rightarrow>
               (case sm_addSession env (genId env (nextId s)) tok raw
                       (Some (genId env (Suc (nextId s)))) of
                  Inr (AddReady cr) \<Rightarrow> workspaceName tok
                | _ \<Rightarrow> []))
        else workspace s)
   \<and> workspace (snd (getAccount env raw s)) =
       (if workspace s = [] then
          (case decodeToken env raw of
             Inl e \<Rightarrow> []
           | Inr tok \<Rightarrow>
               (case sm_addSession env (genId env (nextId s)) tok raw
                       (Some (genId env (Suc (nextId s)))) of
                  Inr (AddReady cr) \<Rightarrow> workspaceName tok
                | _ \<Rightarrow> []))
        else workspace s)
   \<and> workspace (snd (hostReceives env w fr s)) = workspace s
   \<and> workspace (snd (webSocketMessage env w m s)) = workspace s
   \<and> workspace (snd (webSocketError env w err s)) = workspace s
   \<and> workspace (snd (alarm s)) = workspace s
   \<and> workspace (snd (handleSession env w req tok' raw' sid s)) = workspace s
   \<and> workspace (snd (createWebsocketClientSocket env w d s)) = workspace s
   \<and> workspace (snd (broadcastMessage env m s)) = workspace s
   \<and> workspace (snd (sendMessage env w m s)) = workspace s
   \<and> workspace (snd (handleClose env w code reason s)) = workspace s"
proof -
  have kept: "workspace s \<noteq> [] \<longrightarrow> workspace (run env ops s) = workspace s"
    by (simp add: run_keeps_bound)
  have bridge:
    "workspace (snd (findAll env raw wid cl q opts s)) =
       (if workspace s = [] then
          (case decodeToken env raw of
             Inl e \<Rightarrow> []
           | Inr tok \<Rightarrow>
               (case sm_addSession env (genId env (nextId s)) tok raw
                       (Some (genId env (Suc (nextId s)))) of
                  Inr (AddReady cr) \<Rightarrow> workspaceName tok
                | _ \<Rightarrow> []))
        else workspace s)"
    "workspace (snd (tx env raw wid t s)) =
       (if workspace s = [] then
          (case decodeToken env raw of
             Inl e \<Rightarrow> []
           | Inr tok \<Rightarrow>
               (case sm_addSession env (genId env (nextId s)) tok raw
                       (Some (genId env (Suc (nextId s)))) of
                  Inr (AddReady cr) \<Rightarrow> workspaceName tok
                | _ \<Rightarrow> []))
        else workspace s)"
    "workspace (snd (getModel env raw s)) =
       (if workspace s = [] then
          (case decodeToken env raw of
             Inl e \<Rightarrow> []
           | Inr tok \<Rightarrow>
               (case sm_addSession env (genId env (nextId s)) tok raw
                       (Some (genId env (Suc (nextId s)))) of
                  Inr (AddReady cr) \<Rightarrow> workspaceName tok
                | _ \<Rightarrow> []))
        else workspace s)"
    "workspace (snd (getAccount env raw s)) =
       (if workspace s = [] then
          (case decodeToken env raw of
             Inl e \<Rightarrow> []
           | Inr tok \<Rightarrow>
               (case sm_addSession env (genId env (nextId s)) tok raw
                       (Some (genId env (Suc (nextId s)))) of
                  Inr (AddReady cr) \<Rightarrow> workspaceName tok
                | _ \<Rightarrow> []))
        else workspace s)"
    by (simp_all only: findAll_unfold tx_unfold getModel_state getAccount_state snd_conv
        bridge_binds)
  have others:
    "workspace (snd (hostReceives env w fr s)) = workspace s"
    "workspace (snd (webSocketMessage env w m s)) = workspace s"
    "workspace (snd (webSocketError env w err s)) = workspace s"
    "workspace (snd (alarm s)) = workspace s"
    "workspace (snd (handleSession env w req tok' raw' sid s)) = workspace s"
    "workspace (snd (createWebsocketClientSocket env w d s)) = workspace s"
    "workspace (snd (broadcastMessage env m s)) = workspace s"
    "workspace (snd (sendMessage env w m s)) = workspace s"
    "workspace (snd (handleClose env w code reason s)) = workspace s"
    by (simp_all add: hostReceives_workspace webSocketMessage_fields webSocketError_fields
        alarm_def emit_fields handleSession_workspace createWebsocketClientSocket_fields
        broadcastMessage_workspace sendMessage_fields handleClose_fields)
  show ?thesis
    using kept fetch_workspace [of env req s] bridge others by blast
qed

theorem workspace_bound_at_most_once_witness:
  "workspace (constructor demoEnv (\<lambda>w. OPEN)) = []
   \<and> workspace (snd (fetch demoEnv
        \<lparr>pathname = ''/good'', sessionIdParam = None, hdr_ip = None,
          hdr_userAgent = None, hdr_language = None\<rparr>
        (constructor demoEnv (\<lambda>w. OPEN)))) = ''w1''
   \<and> workspace (run demoEnv
        [Fetch \<lparr>pathname = ''/other'', sessionIdParam = None, hdr_ip = None,
                hdr_userAgent = None, hdr_language = None\<rparr>,
         GetAccount ''other'', WebSocketError 5 ''reset'']
        (snd (fetch demoEnv
          \<lparr>pathname = ''/good'', sessionIdParam = None, hdr_ip = None,
            hdr_userAgent = None, hdr_language = None\<rparr>
          (constructor demoEnv (\<lambda>w. OPEN))))) = ''w1''
   \<and> workspace (snd (getAccount demoEnv ''other'' (constructor demoEnv (\<lambda>w. OPEN)))) = ''w2''
   \<and> workspace (snd (getAccount demoEnv ''expired'' (constructor demoEnv (\<lambda>w. OPEN)))) = []"
proof -
  let ?s0 = "constructor demoEnv (\<lambda>w. OPEN)"
  let ?good = "\<lparr>pathname = ''/good'', sessionIdParam = None, hdr_ip = None,
                 hdr_userAgent = None, hdr_language = None\<rparr>"
  let ?other = "\<lparr>pathname = ''/other'', sessionIdParam = None, hdr_ip = None,
                  hdr_userAgent = None, hdr_language = None\<rparr>"
  have unbound: "workspace ?s0 = []"
    by (simp add: constructor_def)
  have tokens: "decodeToken demoEnv ''good'' = Inr demoToken"
    "decodeToken demoEnv ''other'' = Inr (demoToken\<lparr>workspaceName := ''w2''\<rparr>)"
    "decodeToken demoEnv ''expired'' = Inl ''Error: invalid token''"
    by (simp_all add: demoEnv_def)
  have adm: "sm_addSession demoEnv c tk ''other'' i =
               Inr (AddReady \<lparr>cr_session = demoSession, cr_workspaceId = ''w1''\<rparr>)" for c tk i
    by (simp add: demoEnv_def)
  have name: "workspaceName demoToken = ''w1''"
    by (simp add: demoToken_def)
  have first: "workspace (snd (fetch demoEnv ?good ?s0)) = ''w1''"
    using workspace_bound_at_most_once [of ?s0 demoEnv "[]" ?good]
    by (simp add: unbound tokens name)
  have later: "workspace (run demoEnv [Fetch ?other, GetAccount ''other'', WebSocketError 5 ''reset'']
                  (snd (fetch demoEnv ?good ?s0))) = ''w1''"
    using workspace_bound_at_most_once [of "snd (fetch demoEnv ?good ?s0)" demoEnv
        "[Fetch ?other, GetAccount ''other'', WebSocketError 5 ''reset'']"]
    by (simp only: first) simp
  have bridge: "workspace (snd (getAccount demoEnv ''other'' ?s0)) = ''w2''"
    using workspace_bound_at_most_once [of ?s0 demoEnv "[]" ?good "''other''"]
    by (simp add: unbound tokens adm)
  have refused: "workspace (snd (getAccount demoEnv ''expired'' ?s0)) = []"
    using workspace_bound_at_most_once [of ?s0 demoEnv "[]" ?good "''expired''"]
    by (simp add: unbound tokens)
  show ?thesis
    using unbound first later bridge refused by simp
qed

text \<open>
  C2, as stated, fails for a probe that the host delivers. The host answers a text
  frame equal to the probe itself, but a binary frame with the same content is handed
  to \<open>webSocketMessage\<close>, where \<open>readRequest\<close> recognises it as the probe and the handler
  passes the synthetic ping to \<open>sessionManager.handleRequest\<close>: on the path through
  \<open>readRequest\<close> the message does reach dispatch.
\<close>

theorem probe_in_binary_frame_reaches_dispatch_counterexample:
  "autoResponse demoState = Some (pingConst demoEnv, pongConst demoEnv)
   \<and> dispatched (trace (snd (hostReceives demoEnv 5 (BinaryFrame (pingConst demoEnv)) demoState))) =
       [\<lparr>rq_method = ''ping'', rq_params = [], rq_id = - 1, rq_time = Some 0\<rparr>]"
  by (simp add: hostReceives_def webSocketMessage_def doSessionOp_def processFrame_def
      readRequest_def Let_def emit_def promiseId_def demoState_def demoData_def demoSocket_def
      demoEnv_def demoSession_def)

text \<open>
  C2, amended. The constructor registers the pair (probe, reply) as the websocket auto
  response, and no operation of the actor changes it. So on every connection a text
  frame equal to the probe is answered with exactly the fixed reply, by the host, and
  reaches neither \<open>webSocketMessage\<close>, nor the RPC codec, nor
  \<open>sessionManager.handleRequest\<close>. \<open>readRequest\<close> on a buffer exactly equal to the probe
  returns the synthetic ping (method the probe, no parameters, id -1) and leaves the
  state as it is, so the RPC codec is not invoked. A probe that is delivered to the
  handler on an established connection (a binary frame) is dispatched to
  \<open>sessionManager.handleRequest\<close> as that synthetic ping, without a codec call; the
  handler itself writes nothing to the websocket, the reply is then left to the session
  manager.
\<close>

theorem keepalive_probe_answered_or_dispatched:
  "autoResponse (run env ops (constructor env rs)) = Some (pingConst env, pongConst env)
   \<and> (autoResponse s = Some (pingConst env, pongConst env) \<longrightarrow>
        fst (hostReceives env w (TextFrame (pingConst env)) s) = Inr ()
        \<and> trace (snd (hostReceives env w (TextFrame (pingConst env)) s)) =
            trace s @ [AutoResponse w (pongConst env)]
        \<and> written (trace (snd (hostReceives env w (TextFrame (pingConst env)) s))) =
            written (trace s) @ [(w, pongConst env)]
        \<and> dispatched (trace (snd (hostReceives env w (TextFrame (pingConst env)) s))) =
            dispatched (trace s)
        \<and> codecReads (trace (snd (hostReceives env w (TextFrame (pingConst env)) s))) =
            codecReads (trace s))
   \<and> readRequest env cs (pingConst env) binary s =
       (Inr \<lparr>rq_method = pingConst env, rq_params = [], rq_id = - 1, rq_time = Some (now env)\<rparr>, s)
   \<and> (sessions s w = Some sn \<and> connectionSocket sn = Some cs \<longrightarrow>
        dispatched (trace (snd (hostReceives env w (BinaryFrame (pingConst env)) s))) =
          dispatched (trace s) @
            [\<lparr>rq_method = pingConst env, rq_params = [], rq_id = - 1, rq_time = Some (now env)\<rparr>]
        \<and> codecReads (trace (snd (hostReceives env w (BinaryFrame (pingConst env)) s))) =
            codecReads (trace s)
        \<and> written (trace (snd (hostReceives env w (BinaryFrame (pingConst env)) s))) =
            written (trace s))"
proof (intro conjI impI)
  show "autoResponse (run env ops (constructor env rs)) = Some (pingConst env, pongConst env)"
    by (simp add: run_autoResponse constructor_def)
  show "readRequest env cs (pingConst env) binary s =
          (Inr \<lparr>rq_method = pingConst env, rq_params = [], rq_id = - 1, rq_time = Some (now env)\<rparr>, s)"
    by (rule readRequest_probe)
next
  assume reg: "autoResponse s = Some (pingConst env, pongConst env)"
  note h = hostReceives_probe [OF reg, of env w]
  show "fst (hostReceives env w (TextFrame (pingConst env)) s) = Inr ()"
    by (simp add: h)
  show "trace (snd (hostReceives env w (TextFrame (pingConst env)) s)) =
          trace s @ [AutoResponse w (pongConst env)]"
    by (simp add: h emit_fields)
  show "written (trace (snd (hostReceives env w (TextFrame (pingConst env)) s))) =
          written (trace s) @ [(w, pongConst env)]"
    by (simp add: h emit_fields obs_append)
  show "dispatched (trace (snd (hostReceives env w (TextFrame (pingConst env)) s))) =
          dispatched (trace s)"
    by (simp add: h emit_fields obs_append)
  show "codecReads (trace (snd (hostReceives env w (TextFrame (pingConst env)) s))) =
          codecReads (trace s)"
    by (simp add: h emit_fields obs_append)
next
  assume est: "sessions s w = Some sn \<and> connectionSocket sn = Some cs"
  then have e1: "sessions s w = Some sn" and e2: "connectionSocket sn = Some cs"
    by simp_all
  show "dispatched (trace (snd (hostReceives env w (BinaryFrame (pingConst env)) s))) =
          dispatched (trace s) @
            [\<lparr>rq_method = pingConst env, rq_params = [], rq_id = - 1, rq_time = Some (now env)\<rparr>]"
    by (simp add: hostReceives_binary webSocketMessage_probe [OF e1 e2])
  show "codecReads (trace (snd (hostReceives env w (BinaryFrame (pingConst env)) s))) =
          codecReads (trace s)"
    by (simp add: hostReceives_binary webSocketMessage_probe [OF e1 e2])
  show "written (trace (snd (hostReceives env w (BinaryFrame (pingConst env)) s))) =
          written (trace s)"
    by (simp add: hostReceives_binary webSocketMessage_written)
qed

theorem keepalive_probe_answered_or_dispatched_witness:
  "autoResponse demoState = Some (pingConst demoEnv, pongConst demoEnv)
   \<and> sessions demoState 5 = Some (demoData 5) \<and> connectionSocket (demoData 5) = Some (demoSocket 5)
   \<and> trace (snd (hostReceives demoEnv 5 (TextFrame ''ping'') demoState)) = [AutoResponse 5 ''pong!'']
   \<and> written (trace (snd (hostReceives demoEnv 5 (TextFrame ''ping'') demoState))) = [(5, ''pong!'')]
   \<and> dispatched (trace (snd (hostReceives demoEnv 5 (TextFrame ''ping'') demoState))) = []
   \<and> fst (readRequest demoEnv (demoSocket 5) ''ping'' False demoState) =
       Inr \<lparr>rq_method = ''ping'', rq_params = [], rq_id = - 1, rq_time = Some 0\<rparr>
   \<and> dispatched (trace (snd (hostReceives demoEnv 5 (BinaryFrame ''ping'') demoState))) =
       [\<lparr>rq_method = ''ping'', rq_params = [], rq_id = - 1, rq_time = Some 0\<rparr>]
   \<and> written (trace (snd (hostReceives demoEnv 5 (BinaryFrame ''ping'') demoState))) = []"
proof -
  have demo: "pingConst demoEnv = ''ping''" "pongConst demoEnv = ''pong!''" "now demoEnv = 0"
    by (simp_all add: demoEnv_def)
  have reg: "autoResponse demoState = Some (pingConst demoEnv, pongConst demoEnv)"
    by (simp add: demoState_def demo)
  have est: "sessions demoState 5 = Some (demoData 5) \<and>
             connectionSocket (demoData 5) = Some (demoSocket 5)"
    by (simp add: demoState_def demoData_def)
  have tr: "trace demoState = []"
    by (simp add: demoState_def)
  show ?thesis
    using reg est
      keepalive_probe_answered_or_dispatched
        [of demoEnv "[]" "\<lambda>w. OPEN" demoState 5 "demoSocket 5" False "demoData 5"]
    by (simp add: demo tr)
qed




text \<open>
  C4. \<open>broadcastMessage\<close> makes one \<open>ws.send\<close> of the message to each websocket whose
  state is OPEN at the moment of the call, in the order of \<open>getWebSockets\<close>, and none to
  any other; it never raises. A \<open>send\<close> that fails runs \<open>handleClose\<close> (code 1011,
  reason \<open>error\<close>) for that websocket only: the sockets closed are exactly the open ones
  whose \<open>send\<close> failed, every other registry entry is kept, and the sends to the sockets
  after it are still made.
\<close>

theorem broadcast_reaches_exactly_the_open:
  "fst (broadcastMessage env message s) = Inr ()
   \<and> sentTo (trace (snd (broadcastMessage env message s))) =
       sentTo (trace s) @
         map (\<lambda>w. (w, message)) (filter (\<lambda>w. readyState s w = OPEN) (webSockets s))
   \<and> closeCalls (trace (snd (broadcastMessage env message s))) =
       closeCalls (trace s) @
         map (\<lambda>w. (w, Some 1011, Some ''error''))
           (filter (\<lambda>w. ws_sendError env w message \<noteq> None)
              (filter (\<lambda>w. readyState s w = OPEN) (webSockets s)))
   \<and> (\<forall>w. sessions (snd (broadcastMessage env message s)) w =
         (if w \<in> set (webSockets s) \<and> readyState s w = OPEN \<and> ws_sendError env w message \<noteq> None
          then None else sessions s w))"
  by (auto simp add: broadcastMessage_unfold sendAll_result sendAll_sentTo sendAll_closeCalls
      sendAll_sessions emit_fields obs_append)

theorem broadcast_reaches_exactly_the_open_witness:
  "webSockets demoState = [5, 6, 7]
   \<and> filter (\<lambda>w. readyState demoState w = OPEN) (webSockets demoState) = [5, 6]
   \<and> sentTo (trace (snd (broadcastMessage demoEnv ''news'' demoState))) = [(5, ''news''), (6, ''news'')]
   \<and> closeCalls (trace (snd (broadcastMessage demoEnv ''news'' demoState))) =
       [(6, Some 1011, Some ''error'')]
   \<and> sessions (snd (broadcastMessage demoEnv ''news'' demoState)) 5 = Some (demoData 5)
   \<and> sessions (snd (broadcastMessage demoEnv ''news'' demoState)) 6 = None"
proof -
  have st: "webSockets demoState = [5, 6, 7]" "trace demoState = []"
    "readyState demoState = (\<lambda>w. if w = 7 then CLOSED else OPEN)"
    "sessions demoState 5 = Some (demoData 5)"
    by (simp_all add: demoState_def)
  have err: "ws_sendError demoEnv = (\<lambda>w d. if w = 6 then Some ''Error: broken pipe'' else None)"
    by (simp add: demoEnv_def)
  note b = broadcast_reaches_exactly_the_open [of demoEnv "''news''" demoState]
  from b have reg: "\<forall>w. sessions (snd (broadcastMessage demoEnv ''news'' demoState)) w =
         (if w \<in> set (webSockets demoState) \<and> readyState demoState w = OPEN
               \<and> ws_sendError demoEnv w ''news'' \<noteq> None
          then None else sessions demoState w)"
    by blast
  have r5: "sessions (snd (broadcastMessage demoEnv ''news'' demoState)) 5 = Some (demoData 5)"
    using spec [OF reg, of 5] by (simp add: st err)
  have r6: "sessions (snd (broadcastMessage demoEnv ''news'' demoState)) 6 = None"
    using spec [OF reg, of 6] by (simp add: st err)
  show ?thesis
    using b r5 r6 by (simp add: st err)
qed



text \<open>
  C6, as stated, fails when the websocket is no longer open at the moment of the
  informational message (the client went away while admission was pending): \<open>cs.send\<close>
  drops the message, so the client receives none, and \<open>handleSession\<close> still returns
  \<open>true\<close>. And when the transport refuses the write, \<open>handleSession\<close> does not return
  \<open>true\<close>: the \<open>catch\<close> block closes with 4003 and the error is raised.
\<close>

theorem upgrading_on_dead_transport_counterexample:
  "sm_addSession demoEnv (genId demoEnv (nextId demoState)) demoToken ''upgrading'' None =
     Inr (AddUpgrade JNull)
   \<and> fst (handleSession demoEnv 7
        \<lparr>pathname = ''/upgrading'', sessionIdParam = None, hdr_ip = None,
          hdr_userAgent = None, hdr_language = None\<rparr>
        demoToken ''upgrading'' None demoState) = Inr True
   \<and> sentTo (trace (snd (handleSession demoEnv 7
        \<lparr>pathname = ''/upgrading'', sessionIdParam = None, hdr_ip = None,
          hdr_userAgent = None, hdr_language = None\<rparr>
        demoToken ''upgrading'' None demoState))) = []
   \<and> fst (handleSession demoEnv 6
        \<lparr>pathname = ''/upgrading'', sessionIdParam = None, hdr_ip = None,
          hdr_userAgent = None, hdr_language = None\<rparr>
        demoToken ''upgrading'' None demoState) = Inl ''Error: broken pipe''"
proof -
  have adm: "sm_addSession demoEnv (genId demoEnv (nextId demoState)) demoToken ''upgrading'' None =
               Inr (AddUpgrade JNull)"
    by (simp add: demoEnv_def)
  have st: "readyState demoState 7 = CLOSED" "readyState demoState 6 = OPEN" "trace demoState = []"
    by (simp_all add: demoState_def)
  have tr: "ws_closeError demoEnv w r = None"
    "ws_sendError demoEnv 6 d = Some ''Error: broken pipe''" for w r d
    by (simp_all add: demoEnv_def)
  show ?thesis
    using adm
    by (simp add: handleSession_upgrading [OF adm] st tr obs_append)
qed

text \<open>
  C6, amended. When admission answers \<open>upgrading\<close>, \<open>handleSession\<close> accepts the
  websocket, serialises one informational message \<open>{id: -1, result: {state:
  'upgrading', stats}}\<close> and hands it to \<open>cs.send\<close>: the message is written to the
  websocket exactly once if the websocket is OPEN, and not at all otherwise. If the
  transport raises neither on that write nor on the close, the socket is then closed
  with a plain \<open>close()\<close>, no error is logged and \<open>handleSession\<close> returns \<open>true\<close>. If the
  write or the close raises, the \<open>catch\<close> block logs the failure, closes with code 4003
  and the error is raised to the caller. On every one of these paths no entry is added
  to the session registry.
\<close>

theorem upgrading_informs_at_most_once_then_closes:
  assumes "sm_addSession env (genId env (nextId s)) tok rawToken sid = Inr (AddUpgrade info)"
  shows "sessions (snd (handleSession env w req tok rawToken sid s)) = sessions s
       \<and> upgradingMessage info =
           \<lparr>rs_id = - 1, rs_result = JObj [(''state'', JStr ''upgrading''), (''stats'', info)]\<rparr>
       \<and> sentTo (trace (snd (handleSession env w req tok rawToken sid s))) =
           sentTo (trace s) @
             (if readyState s w = OPEN
              then [(w, rpc_serialize env (upgradingMessage info) False)] else [])
       \<and> fst (handleSession env w req tok rawToken sid s) =
           (case (if readyState s w = OPEN
                  then ws_sendError env w (rpc_serialize env (upgradingMessage info) False)
                  else None) of
              Some e \<Rightarrow>
                (case ws_closeError env w (readyState s w) of None \<Rightarrow> Inl e | Some e' \<Rightarrow> Inl e')
            | None \<Rightarrow>
                (case ws_closeError env w (readyState s w) of None \<Rightarrow> Inr True | Some e' \<Rightarrow> Inl e'))
       \<and> trace (snd (handleSession env w req tok rawToken sid s)) =
           trace s @ [ConsoleLog ''New session attempt'', AcceptWebSocket w,
                      SmAddSession (genId env (nextId s)) rawToken sid,
                      Measure ''send-data'' (length (rpc_serialize env (upgradingMessage info) False))]
             @ (if readyState s w = OPEN
                then [WsSend w (rpc_serialize env (upgradingMessage info) False)] else [])
             @ (case (if readyState s w = OPEN
                      then ws_sendError env w (rpc_serialize env (upgradingMessage info) False)
                      else None) of
                  Some e \<Rightarrow> [ConsoleError ''Failed to establish session:'',
                             WsClose w (Some 4003) (Some ''Session establishment failed'')]
                | None \<Rightarrow>
                    (case ws_closeError env w (readyState s w) of
                       None \<Rightarrow> [WsClose w None None]
                     | Some e' \<Rightarrow> [WsClose w None None,
                                    ConsoleError ''Failed to establish session:'',
                                    WsClose w (Some 4003) (Some ''Session establishment failed'')]))
       \<and> readyState (snd (handleSession env w req tok rawToken sid s)) w =
           (case ws_closeError env w (readyState s w) of
              None \<Rightarrow> afterClose (readyState s w) | Some e' \<Rightarrow> readyState s w)
       \<and> afterClose (readyState s w) \<noteq> OPEN"
proof -
  note u = handleSession_upgrading [OF assms, of w req]
  have sent: "sentTo (trace (snd (handleSession env w req tok rawToken sid s))) =
           sentTo (trace s) @
             (if readyState s w = OPEN
              then [(w, rpc_serialize env (upgradingMessage info) False)] else [])"
    by (simp add: u(2) obs_append split: option.split)
  have closing: "afterClose (readyState s w) \<noteq> OPEN"
    by (cases "readyState s w") (simp_all add: afterClose_def)
  show ?thesis
    using u(1) u(2) u(3) u(4) sent closing by (simp add: upgradingMessage_def)
qed

theorem upgrading_informs_at_most_once_then_closes_witness:
  "sm_addSession demoEnv (genId demoEnv (nextId demoState)) demoToken ''upgrading'' None =
     Inr (AddUpgrade JNull)
   \<and> fst (handleSession demoEnv 9
        \<lparr>pathname = ''/upgrading'', sessionIdParam = None, hdr_ip = None,
          hdr_userAgent = None, hdr_language = None\<rparr>
        demoToken ''upgrading'' None demoState) = Inr True
   \<and> trace (snd (handleSession demoEnv 9
        \<lparr>pathname = ''/upgrading'', sessionIdParam = None, hdr_ip = None,
          hdr_userAgent = None, hdr_language = None\<rparr>
        demoToken ''upgrading'' None demoState)) =
       [ConsoleLog ''New session attempt'', AcceptWebSocket 9, SmAddSession ''i'' ''upgrading'' None,
        Measure ''send-data'' 4, WsSend 9 ''info'', WsClose 9 None None]
   \<and> sessions (snd (handleSession demoEnv 9
        \<lparr>pathname = ''/upgrading'', sessionIdParam = None, hdr_ip = None,
          hdr_userAgent = None, hdr_language = None\<rparr>
        demoToken ''upgrading'' None demoState)) = sessions demoState
   \<and> readyState (snd (handleSession demoEnv 9
        \<lparr>pathname = ''/upgrading'', sessionIdParam = None, hdr_ip = None,
          hdr_userAgent = None, hdr_language = None\<rparr>
        demoToken ''upgrading'' None demoState)) 9 = CLOSING"
proof -
  have adm: "sm_addSession demoEnv (genId demoEnv (nextId demoState)) demoToken ''upgrading'' None =
               Inr (AddUpgrade JNull)"
    by (simp add: demoEnv_def)
  have st: "readyState demoState 9 = OPEN" "trace demoState = []" "nextId demoState = 0"
    by (simp_all add: demoState_def)
  have tr: "ws_closeError demoEnv w r = None" "ws_sendError demoEnv 9 d = None"
    "rpc_serialize demoEnv (upgradingMessage JNull) False = ''info''" "genId demoEnv 0 = ''i''"
    for w r d
    by (simp_all add: demoEnv_def upgradingMessage_def)
  show ?thesis
    using adm
      upgrading_informs_at_most_once_then_closes [OF adm, of 9
        "\<lparr>pathname = ''/upgrading'', sessionIdParam = None, hdr_ip = None,
          hdr_userAgent = None, hdr_language = None\<rparr>"]
    by (simp add: st tr afterClose_def)
qed

text \<open>
  C7. When \<open>getModel\<close> succeeds, the token was decoded, \<open>addSession\<close> answered with a
  session for the ephemeral socket, the session's pipeline resolved, and
  \<open>pipeline.loadModel\<close> reported transactions, either as the array itself or as the
  \<open>transactions\<close> field of a response; the result is the gzip compression of the UTF-8
  encoding of the JSON text of exactly these transactions. So for any decompression,
  decoding and parsing that undo \<open>gzip\<close>, the encoder and \<open>JSON.stringify\<close>,
  decompressing and parsing the blob yields exactly the transactions that \<open>loadModel\<close>
  reported. A second call on a pipeline that still reports the same model yields the
  same decompressed content.
\<close>

theorem getModel_blob_decodes_to_model:
  assumes "fst (getModel env raw s) = Inr (Compressed z)"
      and "\<And>b c. gzip env b = Inr c \<Longrightarrow> gunzip c = b"
      and "\<And>t. textDecode (textEncode env t) = t"
      and "\<And>txs. jsonParse (jsonStringify env txs) = txs"
  shows "(\<exists>tok cr p txs.
            decodeToken env raw = Inr tok
          \<and> sm_addSession env (genId env (nextId s)) tok raw (Some (genId env (Suc (nextId s)))) =
              Inr (AddReady cr)
          \<and> resolvePipeline env (cr_session cr) = Inr p
          \<and> (pipeline_loadModel env p 0 = Inr (TxArray txs)
               \<or> (\<exists>h f. pipeline_loadModel env p 0 = Inr (ModelResponse txs h f)))
          \<and> gzip env (textEncode env (jsonStringify env txs)) = Inr z
          \<and> jsonParse (textDecode (gunzip z)) = txs)
       \<and> (\<forall>z'. fst (getModel env raw (snd (getModel env raw s))) = Inr (Compressed z')
               \<and> (\<forall>p p'. pipeline_loadModel env p 0 = pipeline_loadModel env p' 0) \<longrightarrow>
             jsonParse (textDecode (gunzip z')) = jsonParse (textDecode (gunzip z)))"
proof -
  have decode: "jsonParse (textDecode (gunzip c)) = txs"
    if "gzip env (textEncode env (jsonStringify env txs)) = Inr c" for c txs
    using that assms(2) [of "textEncode env (jsonStringify env txs)" c] assms(3) assms(4)
    by simp
  obtain tok cr p txs where first:
    "decodeToken env raw = Inr tok"
    "sm_addSession env (genId env (nextId s)) tok raw (Some (genId env (Suc (nextId s)))) =
       Inr (AddReady cr)"
    "resolvePipeline env (cr_session cr) = Inr p"
    "pipeline_loadModel env p 0 = Inr (TxArray txs)
       \<or> (\<exists>h f. pipeline_loadModel env p 0 = Inr (ModelResponse txs h f))"
    "gzip env (textEncode env (jsonStringify env txs)) = Inr z"
    using getModel_success [OF assms(1)] by blast
  have one: "jsonParse (textDecode (gunzip z)) = txs"
    using decode [OF first(5)] .
  have again: "jsonParse (textDecode (gunzip z')) = jsonParse (textDecode (gunzip z))"
    if ok: "fst (getModel env raw (snd (getModel env raw s))) = Inr (Compressed z')"
      and same: "\<forall>p p'. pipeline_loadModel env p 0 = pipeline_loadModel env p' 0"
    for z'
  proof -
    obtain p' txs' where second:
      "pipeline_loadModel env p' 0 = Inr (TxArray txs')
         \<or> (\<exists>h f. pipeline_loadModel env p' 0 = Inr (ModelResponse txs' h f))"
      "gzip env (textEncode env (jsonStringify env txs')) = Inr z'"
      using getModel_success [OF ok] by blast
    have "pipeline_loadModel env p' 0 = pipeline_loadModel env p 0"
      using same by blast
    then have "txs' = txs"
      using first(4) second(1) by auto
    then show ?thesis
      using decode [OF second(2)] one by simp
  qed
  show ?thesis
    using first one again by blast
qed

theorem getModel_blob_decodes_to_model_witness:
  "fst (getModel demoEnv ''good'' demoState) = Inr (Compressed ''gz[+1.+11.]'')
   \<and> (\<forall>b. map_sum (\<lambda>e. e) (drop 2) (gzip demoEnv b) = Inr b)
   \<and> (\<forall>t. textEncode demoEnv t = t)
   \<and> (\<forall>txs. demoParse (jsonStringify demoEnv txs) = txs)
   \<and> (\<exists>p. pipeline_loadModel demoEnv p 0 = Inr (ModelResponse [JNum 1, JNum 2] ''h'' True))
   \<and> demoParse (drop 2 ''gz[+1.+11.]'') = [JNum 1, JNum 2]"
proof -
  have str: "demoStringify [JNum 1, JNum 2] = ''[+1.+11.]''"
    by (simp add: demoStringify_def unary_def eval_nat_numeral)
  have ok: "fst (getModel demoEnv ''good'' demoState) = Inr (Compressed ''gz[+1.+11.]'')"
    by (simp add: getModel_result getModel_try_def makeRpcSession_def generateId_def Let_def
        emit_def createDummyClientSocket_def transactionsOf_def demoEnv_def demoSession_def str)
  have gz: "\<And>b c. gzip demoEnv b = Inr c \<Longrightarrow> drop 2 c = b"
    by (auto simp add: demoEnv_def)
  have enc: "\<And>t. (\<lambda>b. b) (textEncode demoEnv t) = t"
    by (simp add: demoEnv_def)
  have js: "\<And>txs. demoParse (jsonStringify demoEnv txs) = txs"
    by (simp add: demoEnv_def demoParse_demoStringify)
  have lm: "pipeline_loadModel demoEnv p 0 = Inr (ModelResponse [JNum 1, JNum 2] ''h'' True)" for p
    by (simp add: demoEnv_def)
  have gz': "map_sum (\<lambda>e. e) (drop 2) (gzip demoEnv b) = Inr b" for b
    by (simp add: demoEnv_def)
  have reads: "demoParse ''[+1.+11.]'' = [JNum 1, JNum 2]"
    using demoParse_demoStringify [of "[JNum 1, JNum 2]"] by (simp add: str)
  show ?thesis
    using ok gz' enc js lm reads
      getModel_blob_decodes_to_model [of demoEnv "''good''" demoState
        "''gz[+1.+11.]''" "drop 2" "\<lambda>b. b" demoParse, OF ok gz enc js]
    by simp
qed

text \<open>
  C8. On a dead connection socket (the websocket is not OPEN, or the socket has been
  closed) \<open>send\<close> and \<open>sendPong\<close> return without raising and make no \<open>ws.send\<close> call, so
  nothing is written to the transport, and they leave the ready states and the
  \<open>isClosed\<close> flags as they are, so the socket is still dead afterwards. (\<open>send\<close> still
  reports the size of the serialised message to the measurement sink.)
\<close>

theorem send_on_dead_socket_is_dropped:
  assumes "readyState s (cs_ws cs) \<noteq> OPEN \<or> isClosed s (cs_id cs)"
  shows "fst (send env cs msg binary compression s) = Inr ()
       \<and> sentTo (trace (snd (send env cs msg binary compression s))) = sentTo (trace s)
       \<and> closeCalls (trace (snd (send env cs msg binary compression s))) = closeCalls (trace s)
       \<and> readyState (snd (send env cs msg binary compression s)) = readyState s
       \<and> isClosed (snd (send env cs msg binary compression s)) = isClosed s
       \<and> sessions (snd (send env cs msg binary compression s)) = sessions s
       \<and> sendPong env cs s = (Inr (), s)"
  using assms
  by (simp add: send_dead [OF assms] sendPong_dead [OF assms] emit_fields obs_append)

theorem send_on_dead_socket_is_dropped_witness:
  "readyState demoState (cs_ws (demoSocket 7)) = CLOSED
   \<and> fst (send demoEnv (demoSocket 7) \<lparr>rs_id = 7, rs_result = JArr []\<rparr> False True demoState) = Inr ()
   \<and> sentTo (trace (snd (send demoEnv (demoSocket 7) \<lparr>rs_id = 7, rs_result = JArr []\<rparr> False True
        demoState))) = []
   \<and> readyState (snd (send demoEnv (demoSocket 7) \<lparr>rs_id = 7, rs_result = JArr []\<rparr> False True
        demoState)) 7 = CLOSED
   \<and> sendPong demoEnv (demoSocket 7) demoState = (Inr (), demoState)"
proof -
  have dead: "readyState demoState (cs_ws (demoSocket 7)) \<noteq> OPEN \<or>
              isClosed demoState (cs_id (demoSocket 7))"
    by (simp add: demoState_def demoSocket_def)
  have st: "trace demoState = []" "readyState demoState 7 = CLOSED"
    by (simp_all add: demoState_def)
  have ws7: "cs_ws (demoSocket 7) = 7"
    by (simp add: demoSocket_def)
  show ?thesis
    using send_on_dead_socket_is_dropped [OF dead, of demoEnv "\<lparr>rs_id = 7, rs_result = JArr []\<rparr>" False True]
    by (simp add: st ws7)
qed

text \<open>
  C9, as stated, fails for a failure of the dispatch that arrives asynchronously.
  \<open>sessionManager.handleRequest\<close> returns a promise; \<open>webSocketMessage\<close> neither awaits
  it nor attaches a rejection handler: it registers the completion callback with
  \<open>r.finally\<close>, discards the promise that \<open>finally\<close> returns, and hands \<open>r\<close> to
  \<open>ctx.waitUntil\<close>. When the promise is rejected, the \<open>catch\<close> block has long been left:
  nothing is logged with \<open>console.error\<close>, neither by the handler nor when the promise
  settles, and the rejection is passed on past the handler.
\<close>

theorem rejected_dispatch_is_not_logged_counterexample:
  "sessions demoState 5 = Some (demoData 5)
   \<and> connectionSocket (demoData 5) = Some (demoSocket 5)
   \<and> rpc_readRequest demoEnv ''reject'' (binaryMode (cr_session (wd_session (demoData 5)))) =
       Inr \<lparr>rq_method = ''reject'', rq_params = [], rq_id = 1, rq_time = None\<rparr>
   \<and> sm_handleRequest demoEnv (cr_session (wd_session (demoData 5))) (cs_id (demoSocket 5))
        \<lparr>rq_method = ''reject'', rq_params = [], rq_id = 1, rq_time = None\<rparr> (workspace demoState) =
       Inr (Promise 1 (Some ''Error: rejected''))
   \<and> fst (webSocketMessage demoEnv 5 ''reject'' demoState) = Inr ()
   \<and> trace (snd (webSocketMessage demoEnv 5 ''reject'' demoState)) =
       [Measure ''receive-data'' 6, RpcReadRequest ''reject'' False,
        SmHandleRequest ''s1'' ''c5''
          \<lparr>rq_method = ''reject'', rq_params = [], rq_id = 1, rq_time = None\<rparr> ''w1'',
        PromiseFinally 1, WaitUntil 1]
   \<and> errorsLogged (trace (snd (webSocketMessage demoEnv 5 ''reject'' demoState))) = []
   \<and> fst (onSettled (Promise 1 (Some ''Error: rejected''))
            (snd (webSocketMessage demoEnv 5 ''reject'' demoState))) = Inl ''Error: rejected''
   \<and> errorsLogged (trace (snd (onSettled (Promise 1 (Some ''Error: rejected''))
            (snd (webSocketMessage demoEnv 5 ''reject'' demoState))))) = []"
  by (simp add: webSocketMessage_def doSessionOp_def processFrame_def readRequest_def
      rpcHandler_readRequest_def onSettled_def promiseId_def emit_def Let_def
      demoEnv_def demoState_def demoData_def demoSocket_def demoSession_def)

text \<open>
  C9, amended. \<open>webSocketMessage\<close> never raises and never runs the close path: whatever
  the message, it makes no \<open>ws.close\<close> and no \<open>sessionManager.close\<close> call and leaves the
  session registry, the workspace and the ready states as they are. When the frame of
  an established connection fails to decode (nothing is dispatched then), or
  \<open>sessionManager.handleRequest\<close> raises synchronously, the failure is logged by the
  handler (\<open>Failed to handle message:\<close>). When \<open>handleRequest\<close> returns a promise, the
  handler registers the completion callback and hands the promise to \<open>waitUntil\<close>, and
  logs no error; when the promise settles, only the completion line \<open>handle-request\<close> is
  logged, and a rejection is neither caught nor logged as an error, though it closes no
  connection and removes no registry entry either. \<open>webSocketError\<close>, in contrast, runs
  \<open>handleClose\<close> with code 1011 and removes the registry entry.
\<close>

theorem message_failure_is_isolated:
  "fst (webSocketMessage env w message s) = Inr ()
   \<and> closeCalls (trace (snd (webSocketMessage env w message s))) = closeCalls (trace s)
   \<and> cleanups (trace (snd (webSocketMessage env w message s))) = cleanups (trace s)
   \<and> sessions (snd (webSocketMessage env w message s)) = sessions s
   \<and> workspace (snd (webSocketMessage env w message s)) = workspace s
   \<and> readyState (snd (webSocketMessage env w message s)) = readyState s
   \<and> (sessions s w = Some sn \<and> connectionSocket sn = Some cs \<and> message \<noteq> pingConst env
        \<and> rpc_readRequest env message (binaryMode (cr_session (wd_session sn))) = Inl e \<longrightarrow>
        errorsLogged (trace (snd (webSocketMessage env w message s))) =
          errorsLogged (trace s) @ [''Failed to handle message:'']
        \<and> dispatched (trace (snd (webSocketMessage env w message s))) = dispatched (trace s))
   \<and> (sessions s w = Some sn \<and> connectionSocket sn = Some cs
        \<and> (if message = pingConst env
            then Inr \<lparr>rq_method = pingConst env, rq_params = [], rq_id = - 1,
                      rq_time = Some (now env)\<rparr>
            else rpc_readRequest env message (binaryMode (cr_session (wd_session sn)))) = Inr rq
        \<and> sm_handleRequest env (cr_session (wd_session sn)) (cs_id cs) rq (workspace s) = Inl e \<longrightarrow>
        errorsLogged (trace (snd (webSocketMessage env w message s))) =
          errorsLogged (trace s) @ [''Failed to handle message:''])
   \<and> (sessions s w = Some sn \<and> connectionSocket sn = Some cs
        \<and> (if message = pingConst env
            then Inr \<lparr>rq_method = pingConst env, rq_params = [], rq_id = - 1,
                      rq_time = Some (now env)\<rparr>
            else rpc_readRequest env message (binaryMode (cr_session (wd_session sn)))) = Inr rq
        \<and> sm_handleRequest env (cr_session (wd_session sn)) (cs_id cs) rq (workspace s) =
            Inr (Promise n outcome) \<longrightarrow>
        trace (snd (webSocketMessage env w message s)) =
          trace s @ [Measure ''receive-data'' (length message)]
            @ (if message = pingConst env then []
               else [RpcReadRequest message (binaryMode (cr_session (wd_session sn)))])
            @ [SmHandleRequest (sessionId (cr_session (wd_session sn))) (cs_id cs) rq (workspace s),
               PromiseFinally n, WaitUntil n]
        \<and> errorsLogged (trace (snd (webSocketMessage env w message s))) = errorsLogged (trace s)
        \<and> fst (onSettled (Promise n outcome) (snd (webSocketMessage env w message s))) =
            (case outcome of None \<Rightarrow> Inr () | Some err \<Rightarrow> Inl err)
        \<and> trace (snd (onSettled (Promise n outcome) (snd (webSocketMessage env w message s)))) =
            trace (snd (webSocketMessage env w message s)) @ [ConsoleLog ''handle-request'']
        \<and> errorsLogged (trace (snd (onSettled (Promise n outcome)
            (snd (webSocketMessage env w message s))))) = errorsLogged (trace s)
        \<and> sessions (snd (onSettled (Promise n outcome) (snd (webSocketMessage env w message s)))) =
            sessions s)
   \<and> closeCalls (trace (snd (webSocketError env w e s))) =
       closeCalls (trace s) @ [(w, Some 1011, Some ''error'')]
   \<and> sessions (snd (webSocketError env w e s)) = (sessions s)(w := None)"
proof -
  have rd: "fst (readRequest env cs message b s0) =
              (if message = pingConst env
               then Inr \<lparr>rq_method = pingConst env, rq_params = [], rq_id = - 1,
                         rq_time = Some (now env)\<rparr>
               else rpc_readRequest env message b)" for b s0
    by (simp add: readRequest_def rpcHandler_readRequest_def)
  have decode: "errorsLogged (trace (snd (webSocketMessage env w message s))) =
                  errorsLogged (trace s) @ [''Failed to handle message:'']
                \<and> dispatched (trace (snd (webSocketMessage env w message s))) = dispatched (trace s)"
    if h: "sessions s w = Some sn \<and> connectionSocket sn = Some cs \<and> message \<noteq> pingConst env
           \<and> rpc_readRequest env message (binaryMode (cr_session (wd_session sn))) = Inl e"
  proof -
    have f: "fst (processFrame env (workspace s) cs (wd_session sn) message s) = Inl e"
      using h by (simp add: processFrame_decode_fails)
    have d: "dispatched (trace (snd (processFrame env (workspace s) cs (wd_session sn) message s))) =
               dispatched (trace s)"
      using h by (simp add: processFrame_decode_fails)
    show ?thesis
      using h f d
      by (simp add: webSocketMessage_established emit_fields obs_append processFrame_fields)
  qed
  have dispatch: "errorsLogged (trace (snd (webSocketMessage env w message s))) =
                    errorsLogged (trace s) @ [''Failed to handle message:'']"
    if h: "sessions s w = Some sn \<and> connectionSocket sn = Some cs
           \<and> (if message = pingConst env
               then Inr \<lparr>rq_method = pingConst env, rq_params = [], rq_id = - 1,
                         rq_time = Some (now env)\<rparr>
               else rpc_readRequest env message (binaryMode (cr_session (wd_session sn)))) = Inr rq
           \<and> sm_handleRequest env (cr_session (wd_session sn)) (cs_id cs) rq (workspace s) = Inl e"
  proof -
    have r: "fst (readRequest env cs message (binaryMode (cr_session (wd_session sn)))
                    (emit (Measure ''receive-data'' (length message)) s)) = Inr rq"
      using h by (simp only: rd)
    have f: "fst (processFrame env (workspace s) cs (wd_session sn) message s) = Inl e"
      using h processFrame_dispatch_fails [OF r] by blast
    show ?thesis
      using h f by (simp add: webSocketMessage_logs_failure [of s w sn cs env message e])
  qed
  have settle:
    "fst (onSettled (Promise n outcome) s') = (case outcome of None \<Rightarrow> Inr () | Some err \<Rightarrow> Inl err)"
    "trace (snd (onSettled (Promise n outcome) s')) = trace s' @ [ConsoleLog ''handle-request'']"
    "errorsLogged (trace (snd (onSettled (Promise n outcome) s'))) = errorsLogged (trace s')"
    "sessions (snd (onSettled (Promise n outcome) s')) = sessions s'" for s'
    by (simp_all add: onSettled_fields obs_append)
  have async:
    "trace (snd (webSocketMessage env w message s)) =
       trace s @ [Measure ''receive-data'' (length message)]
         @ (if message = pingConst env then []
            else [RpcReadRequest message (binaryMode (cr_session (wd_session sn)))])
         @ [SmHandleRequest (sessionId (cr_session (wd_session sn))) (cs_id cs) rq (workspace s),
            PromiseFinally n, WaitUntil n]
     \<and> errorsLogged (trace (snd (webSocketMessage env w message s))) = errorsLogged (trace s)
     \<and> fst (onSettled (Promise n outcome) (snd (webSocketMessage env w message s))) =
            (case outcome of None \<Rightarrow> Inr () | Some err \<Rightarrow> Inl err)
     \<and> trace (snd (onSettled (Promise n outcome) (snd (webSocketMessage env w message s)))) =
            trace (snd (webSocketMessage env w message s)) @ [ConsoleLog ''handle-request'']
     \<and> errorsLogged (trace (snd (onSettled (Promise n outcome)
            (snd (webSocketMessage env w message s))))) = errorsLogged (trace s)
     \<and> sessions (snd (onSettled (Promise n outcome) (snd (webSocketMessage env w message s)))) =
            sessions s"
    if h: "sessions s w = Some sn \<and> connectionSocket sn = Some cs
           \<and> (if message = pingConst env
               then Inr \<lparr>rq_method = pingConst env, rq_params = [], rq_id = - 1,
                         rq_time = Some (now env)\<rparr>
               else rpc_readRequest env message (binaryMode (cr_session (wd_session sn)))) = Inr rq
           \<and> sm_handleRequest env (cr_session (wd_session sn)) (cs_id cs) rq (workspace s) =
               Inr (Promise n outcome)"
  proof -
    have r: "fst (readRequest env cs message (binaryMode (cr_session (wd_session sn)))
                    (emit (Measure ''receive-data'' (length message)) s)) = Inr rq"
      using h by (simp only: rd)
    have p: "sm_handleRequest env (cr_session (wd_session sn)) (cs_id cs) rq (workspace s) =
               Inr (Promise n outcome)"
      using h by blast
    have t: "trace (snd (webSocketMessage env w message s)) =
       trace s @ [Measure ''receive-data'' (length message)]
         @ (if message = pingConst env then []
            else [RpcReadRequest message (binaryMode (cr_session (wd_session sn)))])
         @ [SmHandleRequest (sessionId (cr_session (wd_session sn))) (cs_id cs) rq (workspace s),
            PromiseFinally n, WaitUntil n]"
      using h webSocketMessage_promise [OF _ _ r p, of w] by (simp add: promiseId_def)
    have l: "errorsLogged (trace (snd (webSocketMessage env w message s))) = errorsLogged (trace s)"
      by (simp add: t obs_append)
    have l': "errorsLogged (trace (snd (onSettled (Promise n outcome)
                 (snd (webSocketMessage env w message s))))) = errorsLogged (trace s)"
      by (simp only: settle(3) l)
    have r': "sessions (snd (onSettled (Promise n outcome) (snd (webSocketMessage env w message s)))) =
                sessions s"
      by (simp only: settle(4) webSocketMessage_fields)
    show ?thesis
      by (intro conjI t l settle(1) settle(2) l' r')
  qed
  have base:
    "fst (webSocketMessage env w message s) = Inr ()"
    "closeCalls (trace (snd (webSocketMessage env w message s))) = closeCalls (trace s)"
    "cleanups (trace (snd (webSocketMessage env w message s))) = cleanups (trace s)"
    "sessions (snd (webSocketMessage env w message s)) = sessions s"
    "workspace (snd (webSocketMessage env w message s)) = workspace s"
    "readyState (snd (webSocketMessage env w message s)) = readyState s"
    "closeCalls (trace (snd (webSocketError env w e s))) =
       closeCalls (trace s) @ [(w, Some 1011, Some ''error'')]"
    "sessions (snd (webSocketError env w e s)) = (sessions s)(w := None)"
    by (simp_all add: webSocketMessage_result webSocketMessage_fields webSocketError_fields)
  show ?thesis
    by (intro conjI base impI [OF decode] impI [OF dispatch] impI [OF async]) blast+
qed

theorem message_failure_is_isolated_witness:
  "sessions demoState 5 = Some (demoData 5) \<and> connectionSocket (demoData 5) = Some (demoSocket 5)
   \<and> ''garbage'' \<noteq> pingConst demoEnv \<and> ''fail'' \<noteq> pingConst demoEnv \<and> ''okay'' \<noteq> pingConst demoEnv
   \<and> rpc_readRequest demoEnv ''garbage'' (binaryMode (cr_session (wd_session (demoData 5)))) =
       Inl ''Error: decode''
   \<and> rpc_readRequest demoEnv ''fail'' (binaryMode (cr_session (wd_session (demoData 5)))) =
       Inr \<lparr>rq_method = ''fail'', rq_params = [], rq_id = 1, rq_time = None\<rparr>
   \<and> sm_handleRequest demoEnv (cr_session (wd_session (demoData 5))) (cs_id (demoSocket 5))
        \<lparr>rq_method = ''fail'', rq_params = [], rq_id = 1, rq_time = None\<rparr> (workspace demoState) =
       Inl ''Error: dispatch''
   \<and> rpc_readRequest demoEnv ''okay'' (binaryMode (cr_session (wd_session (demoData 5)))) =
       Inr \<lparr>rq_method = ''okay'', rq_params = [], rq_id = 1, rq_time = None\<rparr>
   \<and> sm_handleRequest demoEnv (cr_session (wd_session (demoData 5))) (cs_id (demoSocket 5))
        \<lparr>rq_method = ''okay'', rq_params = [], rq_id = 1, rq_time = None\<rparr> (workspace demoState) =
       Inr (Promise 0 None)
   \<and> errorsLogged (trace (snd (webSocketMessage demoEnv 5 ''garbage'' demoState))) =
       [''Failed to handle message:'']
   \<and> errorsLogged (trace (snd (webSocketMessage demoEnv 5 ''fail'' demoState))) =
       [''Failed to handle message:'']
   \<and> trace (snd (webSocketMessage demoEnv 5 ''okay'' demoState)) =
       [Measure ''receive-data'' 4, RpcReadRequest ''okay'' False,
        SmHandleRequest ''s1'' ''c5''
          \<lparr>rq_method = ''okay'', rq_params = [], rq_id = 1, rq_time = None\<rparr> ''w1'',
        PromiseFinally 0, WaitUntil 0]
   \<and> fst (onSettled (Promise 0 None) (snd (webSocketMessage demoEnv 5 ''okay'' demoState))) = Inr ()
   \<and> closeCalls (trace (snd (webSocketMessage demoEnv 5 ''garbage'' demoState))) = []
   \<and> sessions (snd (webSocketMessage demoEnv 5 ''fail'' demoState)) 5 = Some (demoData 5)
   \<and> closeCalls (trace (snd (webSocketError demoEnv 5 ''Error: dispatch'' demoState))) =
       [(5, Some 1011, Some ''error'')]"
proof -
  have est: "sessions demoState 5 = Some (demoData 5)" "connectionSocket (demoData 5) = Some (demoSocket 5)"
    by (simp_all add: demoState_def demoData_def)
  have garbage: "''garbage'' \<noteq> pingConst demoEnv" "''fail'' \<noteq> pingConst demoEnv"
    "''okay'' \<noteq> pingConst demoEnv"
    "rpc_readRequest demoEnv ''garbage'' (binaryMode (cr_session (wd_session (demoData 5)))) =
       Inl ''Error: decode''"
    by (simp_all add: demoEnv_def)
  have rd: "rpc_readRequest demoEnv ''fail'' (binaryMode (cr_session (wd_session (demoData 5)))) =
              Inr \<lparr>rq_method = ''fail'', rq_params = [], rq_id = 1, rq_time = None\<rparr>"
    "rpc_readRequest demoEnv ''okay'' (binaryMode (cr_session (wd_session (demoData 5)))) =
              Inr \<lparr>rq_method = ''okay'', rq_params = [], rq_id = 1, rq_time = None\<rparr>"
    by (simp_all add: demoEnv_def)
  have hr: "sm_handleRequest demoEnv (cr_session (wd_session (demoData 5))) (cs_id (demoSocket 5))
              \<lparr>rq_method = ''fail'', rq_params = [], rq_id = 1, rq_time = None\<rparr> (workspace demoState) =
            Inl ''Error: dispatch''"
    "sm_handleRequest demoEnv (cr_session (wd_session (demoData 5))) (cs_id (demoSocket 5))
              \<lparr>rq_method = ''okay'', rq_params = [], rq_id = 1, rq_time = None\<rparr> (workspace demoState) =
            Inr (Promise 0 None)"
    by (simp_all add: demoEnv_def)
  have tr: "trace demoState = []" "workspace demoState = ''w1''"
    "binaryMode (cr_session (wd_session (demoData 5))) = False"
    "sessionId (cr_session (wd_session (demoData 5))) = ''s1''" "cs_id (demoSocket 5) = ''c5''"
    by (simp_all add: demoState_def demoData_def demoSocket_def demoSession_def)
  show ?thesis
    using est garbage rd hr
      message_failure_is_isolated [of demoEnv 5 "''garbage''" demoState "demoData 5" "demoSocket 5"
        "''Error: decode''"]
      message_failure_is_isolated [of demoEnv 5 "''fail''" demoState "demoData 5" "demoSocket 5"
        "''Error: dispatch''" "\<lparr>rq_method = ''fail'', rq_params = [], rq_id = 1, rq_time = None\<rparr>"]
      message_failure_is_isolated [of demoEnv 5 "''okay''" demoState "demoData 5" "demoSocket 5"
        "''Error: dispatch''" "\<lparr>rq_method = ''okay'', rq_params = [], rq_id = 1, rq_time = None\<rparr>"
        0 None]
    by (simp add: tr)
qed

text \<open>
  C10. For a websocket that has no entry in the session registry, or whose entry has
  no connection socket, \<open>webSocketMessage\<close> returns at once: it does not raise and the
  state is exactly the one before, so nothing is dispatched, nothing is measured or
  logged, and no field of the actor changes.
\<close>

theorem message_without_session_is_ignored:
  assumes "sessions s w = None \<or> (\<exists>sn. sessions s w = Some sn \<and> connectionSocket sn = None)"
  shows "webSocketMessage env w message s = (Inr (), s)
       \<and> dispatched (trace (snd (webSocketMessage env w message s))) = dispatched (trace s)
       \<and> measured (trace (snd (webSocketMessage env w message s))) = measured (trace s)"
  by (simp add: webSocketMessage_unregistered [OF assms])

theorem message_without_session_is_ignored_witness:
  "(sessions demoState 7 = None \<or>
      (\<exists>sn. sessions demoState 7 = Some sn \<and> connectionSocket sn = None))
   \<and> webSocketMessage demoEnv 7 ''hello'' demoState = (Inr (), demoState)"
proof -
  have none: "sessions demoState 7 = None \<or>
              (\<exists>sn. sessions demoState 7 = Some sn \<and> connectionSocket sn = None)"
    by (simp add: demoState_def)
  show ?thesis
    using none message_without_session_is_ignored [OF none, of demoEnv "''hello''"]
    by simp
qed

end
